theory Spec2Isabelle
  imports Main
begin

section \<open>The processing-chain base class: dispatch over modules\<close>

text \<open>
  This theory embeds \<^verbatim>\<open>app/chain/__init__.py\<close>: the private method
  \<^verbatim>\<open>ChainBase.__run_module\<close>, which runs a named method on every module that the
  module manager returns for it and merges what the modules return, and the public
  methods of \<^verbatim>\<open>ChainBase\<close>, each of which forwards to it.
\<close>

subsection \<open>Python values\<close>

text \<open>
  The values that the code inspects: \<^verbatim>\<open>None\<close>, tuples (\<^verbatim>\<open>isinstance(ret, tuple)\<close>),
  lists (\<^verbatim>\<open>isinstance(result, list)\<close>), and everything else. Strings, integers
  and booleans are kept apart so that the examples of the specification can be written
  down; \<open>PObj\<close> stands for any other object (a \<^verbatim>\<open>MediaInfo\<close>, a dict, a path),
  told apart by a number. Values are compared by content: the lists that modules
  return are taken to be fresh objects that no module keeps or changes afterwards, so
  that \<^verbatim>\<open>result.extend(temp)\<close> is the concatenation of two values.
\<close>

datatype pyval =
    PNone
  | PBool bool
  | PInt int
  | PStr string
  | PList "pyval list"
  | PTuple "pyval list"
  | PObj nat

text \<open>
  An exception that leaves \<^verbatim>\<open>__run_module\<close> and reaches its caller: the name of its
  class and its text.
\<close>

datatype error = Error string string

text \<open>
  An exception object that the call of a module raises: the name of its class, and
  what formatting it does. The handler writes \<^verbatim>\<open>{err}\<close> in an f-string, which calls
  \<^verbatim>\<open>str(err)\<close>: for most exceptions that returns a text, but the \<^verbatim>\<open>__str__\<close> of an
  exception class may itself raise (or return something that is not a string, which
  makes \<^verbatim>\<open>str\<close> raise \<^verbatim>\<open>TypeError\<close>). These are the exceptions that
  \<^verbatim>\<open>except Exception\<close> handles, that is, instances of \<^verbatim>\<open>Exception\<close>. What is raised
  outside that class (\<^verbatim>\<open>KeyboardInterrupt\<close>, \<^verbatim>\<open>SystemExit\<close>) ends the process or
  the request rather than the call of one module; the handler does not name it, and
  it is not an outcome here.
\<close>

datatype str_outcome = Str_Returns string | Str_Raises error

datatype pyexc = PyExc (exc_class: string) (str_of: str_outcome)

text \<open>What one call of a module's method does: it returns a value or it raises.\<close>

datatype outcome = Returns pyval | Raises pyexc

text \<open>The keyword arguments \<^verbatim>\<open>**kwargs\<close>: a dict from parameter names to values.\<close>

type_synonym kwargs = "string \<rightharpoonup> pyval"

text \<open>
  A module, as far as \<^verbatim>\<open>__run_module\<close> looks at it: the name of its class
  (\<^verbatim>\<open>module.__class__.__name__\<close>, written to the log) and its callable attributes by
  name (\<^verbatim>\<open>getattr(module, method)\<close>). A method is given by what a call with the
  positional and keyword arguments of this dispatch does.
\<close>

record module =
  cls_name :: string
  attrs :: "string \<Rightarrow> (pyval list \<Rightarrow> kwargs \<Rightarrow> outcome) option"

text \<open>
  The outcome of the expression \<^verbatim>\<open>getattr(module, method)(*args, **kwargs)\<close>: a
  module without the attribute makes \<^verbatim>\<open>getattr\<close> raise \<^verbatim>\<open>AttributeError\<close>, and
  then nothing is called. The text of that error names the class and the attribute
  between single quotes.
\<close>

definition no_attribute :: "string \<Rightarrow> string \<Rightarrow> string" where
  "no_attribute cls method =
     [CHR 0x27] @ cls @ [CHR 0x27] @ '' object has no attribute '' @
     [CHR 0x27] @ method @ [CHR 0x27]"

definition exposes :: "module \<Rightarrow> string \<Rightarrow> bool" where
  "exposes m method = (attrs m method \<noteq> None)"

definition invoke :: "module \<Rightarrow> string \<Rightarrow> pyval list \<Rightarrow> kwargs \<Rightarrow> outcome" where
  "invoke m method args kwargs =
     (case attrs m method of
        None \<Rightarrow>
          Raises (PyExc ''AttributeError'' (Str_Returns (no_attribute (cls_name m) method)))
      | Some f \<Rightarrow> f args kwargs)"

subsection \<open>The tests on values that \<^verbatim>\<open>__run_module\<close> makes\<close>

text \<open>
  The nested function \<^verbatim>\<open>is_result_empty(ret)\<close>. Its tuple branch reads the
  parameter \<^verbatim>\<open>ret\<close>; its other branch reads the variable \<^verbatim>\<open>result\<close> of the enclosing
  function, which is the first argument here.
\<close>

fun is_result_empty :: "pyval \<Rightarrow> pyval \<Rightarrow> bool" where
  "is_result_empty result (PTuple ret) = list_all (\<lambda>v. v = PNone) ret"
| "is_result_empty result ret = (result = PNone)"

fun isinstance_list :: "pyval \<Rightarrow> bool" where
  "isinstance_list (PList xs) = True"
| "isinstance_list v = False"

text \<open>\<^verbatim>\<open>result.extend(temp)\<close>, used only when both are lists.\<close>

fun list_extend :: "pyval \<Rightarrow> pyval \<Rightarrow> pyval" where
  "list_extend (PList xs) (PList ys) = PList (xs @ ys)"
| "list_extend v w = v"

subsection \<open>The log and the state of one dispatch\<close>

text \<open>
  The two log calls of \<^verbatim>\<open>__run_module\<close>: \<^verbatim>\<open>logger.debug\<close> with the method name
  before the loop, and \<^verbatim>\<open>logger.error\<close> with the method name, the class name of the
  module and the text of the exception in the handler.
\<close>

datatype log_entry =
    LogDebug string
  | LogError string string string

text \<open>
  The state of the loop: the local variable \<^verbatim>\<open>result\<close>, what has been written to
  the log, and the class names of the modules whose method has been called so far,
  in the order of the calls. The last field is not a variable of the code; it records
  the calls, so that "this module is never invoked" can be stated.
\<close>

record run_state =
  result :: pyval
  logged :: "log_entry list"
  invoked :: "string list"

text \<open>
  How the loop, and so \<^verbatim>\<open>__run_module\<close>, ends: it returns, in the state on the right,
  or an exception leaves it, on the left, with the state at that moment (what had
  been called and logged until then).
\<close>

type_synonym run_end = "(error \<times> run_state) + run_state"

subsection \<open>\<^verbatim>\<open>__run_module\<close>\<close>

text \<open>
  The call inside the \<^verbatim>\<open>try\<close> block, with its effect on the record of calls, and
  the \<^verbatim>\<open>except Exception\<close> handler. The handler builds the log message first, which
  formats the exception: when that raises, the new exception leaves the handler, and
  with it the loop and \<^verbatim>\<open>__run_module\<close>, before anything is logged. Otherwise the
  handler writes the message to the log (and prints the traceback, which is not kept
  here).
\<close>

definition called :: "module \<Rightarrow> string \<Rightarrow> run_state \<Rightarrow> run_state" where
  "called m method s =
     (if exposes m method then s\<lparr>invoked := invoked s @ [cls_name m]\<rparr> else s)"

definition handler :: "module \<Rightarrow> string \<Rightarrow> pyexc \<Rightarrow> run_state \<Rightarrow> run_end" where
  "handler m method err s =
     (case str_of err of
        Str_Raises e \<Rightarrow> Inl (e, s)
      | Str_Returns msg \<Rightarrow>
          Inr (s\<lparr>logged := logged s @ [LogError method (cls_name m) msg]\<rparr>))"

text \<open>
  The \<^verbatim>\<open>for module in modules\<close> loop. The three branches are those of the code:
  an empty \<^verbatim>\<open>result\<close> is replaced by what the module returns; a list is extended by
  what the module returns if that is a list; anything else leaves the loop
  (\<^verbatim>\<open>break\<close>). An exception that the handler logs leaves \<^verbatim>\<open>result\<close> as it is and
  the loop goes on with the next module; an exception that leaves the handler ends
  the loop.
\<close>

fun run_loop :: "string \<Rightarrow> pyval list \<Rightarrow> kwargs \<Rightarrow> module list \<Rightarrow> run_state \<Rightarrow> run_end" where
  "run_loop method args kwargs [] s = Inr s"
| "run_loop method args kwargs (m # modules) s =
     (if is_result_empty (result s) (result s) then
        (case invoke m method args kwargs of
           Returns v \<Rightarrow> run_loop method args kwargs modules ((called m method s)\<lparr>result := v\<rparr>)
         | Raises err \<Rightarrow>
             (case handler m method err (called m method s) of
                Inl raised \<Rightarrow> Inl raised
              | Inr s' \<Rightarrow> run_loop method args kwargs modules s'))
      else if isinstance_list (result s) then
        (case invoke m method args kwargs of
           Returns temp \<Rightarrow>
             (if isinstance_list temp
              then run_loop method args kwargs modules
                     ((called m method s)\<lparr>result := list_extend (result s) temp\<rparr>)
              else run_loop method args kwargs modules (called m method s))
         | Raises err \<Rightarrow>
             (case handler m method err (called m method s) of
                Inl raised \<Rightarrow> Inl raised
              | Inr s' \<Rightarrow> run_loop method args kwargs modules s'))
      else Inr s)"

text \<open>
  The object itself. Of the module manager only \<^verbatim>\<open>get_modules(method)\<close> is used:
  the modules that have the method, in the manager's order. The manager is not part
  of this file of the repository, so it is a parameter. The event manager is never
  used by the methods below.
\<close>

record chain_base =
  modulemanager :: "string \<Rightarrow> module list"

definition run_module :: "chain_base \<Rightarrow> string \<Rightarrow> pyval list \<Rightarrow> kwargs \<Rightarrow> run_end" where
  "run_module self method args kwargs =
     run_loop method args kwargs (modulemanager self method)
       \<lparr>result = PNone, logged = [LogDebug method], invoked = []\<rparr>"

subsection \<open>The public methods\<close>

text \<open>
  A parameter with a default value (\<^verbatim>\<open>subtitle: str = None\<close>) is an optional
  argument here: \<open>None\<close> when the caller leaves it out, and then the method body sees
  the default.
\<close>

definition arg_or :: "pyval \<Rightarrow> pyval option \<Rightarrow> pyval" where
  "arg_or dflt a = (case a of None \<Rightarrow> dflt | Some v \<Rightarrow> v)"

text \<open>
  The twenty-eight public methods of \<^verbatim>\<open>ChainBase\<close>, in the order of the file. Each
  body is one \<^verbatim>\<open>return self.__run_module("name", k1=v1, ...)\<close>: no positional
  arguments, and the keyword arguments in the order in which the call writes them
  (a dict, so \<open>map_of\<close>). Each ends as \<^verbatim>\<open>__run_module\<close> ends: it returns what that
  returns, here the final state (the value together with the calls and the log), or
  lets through the exception that leaves it. The parameters
  \<^verbatim>\<open>sort\<close> and \<^verbatim>\<open>image\<close> are written \<open>sort'\<close> and \<open>image'\<close>.
\<close>

definition prepare_recognize ::
  "chain_base \<Rightarrow> pyval \<Rightarrow> pyval option \<Rightarrow> run_end" where
  "prepare_recognize self title subtitle =
     run_module self ''prepare_recognize'' []
       (map_of
        [(''title'', title), (''subtitle'', arg_or PNone subtitle)])"

definition recognize_media ::
  "chain_base \<Rightarrow> pyval option \<Rightarrow> pyval option \<Rightarrow> pyval option \<Rightarrow> run_end" where
  "recognize_media self meta mtype tmdbid =
     run_module self ''recognize_media'' []
       (map_of
        [(''meta'', arg_or PNone meta), (''mtype'', arg_or PNone mtype),
         (''tmdbid'', arg_or PNone tmdbid)])"

definition obtain_image ::
  "chain_base \<Rightarrow> pyval \<Rightarrow> run_end" where
  "obtain_image self mediainfo =
     run_module self ''obtain_image'' []
       (map_of
        [(''mediainfo'', mediainfo)])"

definition douban_info ::
  "chain_base \<Rightarrow> pyval \<Rightarrow> run_end" where
  "douban_info self doubanid =
     run_module self ''douban_info'' []
       (map_of
        [(''doubanid'', doubanid)])"

definition tvdb_info ::
  "chain_base \<Rightarrow> pyval \<Rightarrow> run_end" where
  "tvdb_info self tvdbid =
     run_module self ''tvdb_info'' []
       (map_of
        [(''tvdbid'', tvdbid)])"

definition tmdb_info ::
  "chain_base \<Rightarrow> pyval \<Rightarrow> pyval \<Rightarrow> run_end" where
  "tmdb_info self tmdbid mtype =
     run_module self ''tmdb_info'' []
       (map_of
        [(''tmdbid'', tmdbid), (''mtype'', mtype)])"

definition message_parser ::
  "chain_base \<Rightarrow> pyval \<Rightarrow> pyval \<Rightarrow> pyval \<Rightarrow> run_end" where
  "message_parser self body form args =
     run_module self ''message_parser'' []
       (map_of
        [(''body'', body), (''form'', form), (''args'', args)])"

definition webhook_parser ::
  "chain_base \<Rightarrow> pyval \<Rightarrow> pyval \<Rightarrow> pyval \<Rightarrow> run_end" where
  "webhook_parser self body form args =
     run_module self ''webhook_parser'' []
       (map_of
        [(''body'', body), (''form'', form), (''args'', args)])"

definition search_medias ::
  "chain_base \<Rightarrow> pyval \<Rightarrow> run_end" where
  "search_medias self meta =
     run_module self ''search_medias'' []
       (map_of
        [(''meta'', meta)])"

definition search_torrents ::
  "chain_base \<Rightarrow> pyval \<Rightarrow> pyval \<Rightarrow> pyval option \<Rightarrow> run_end" where
  "search_torrents self mediainfo sites keyword =
     run_module self ''search_torrents'' []
       (map_of
        [(''mediainfo'', mediainfo), (''sites'', sites),
         (''keyword'', arg_or PNone keyword)])"

definition refresh_torrents ::
  "chain_base \<Rightarrow> pyval \<Rightarrow> run_end" where
  "refresh_torrents self sites =
     run_module self ''refresh_torrents'' []
       (map_of
        [(''sites'', sites)])"

definition filter_torrents ::
  "chain_base \<Rightarrow> pyval \<Rightarrow> pyval option \<Rightarrow> run_end" where
  "filter_torrents self torrent_list season_episodes =
     run_module self ''filter_torrents'' []
       (map_of
        [(''torrent_list'', torrent_list),
         (''season_episodes'', arg_or PNone season_episodes)])"

definition download ::
  "chain_base \<Rightarrow> pyval \<Rightarrow> pyval \<Rightarrow> pyval option \<Rightarrow> run_end" where
  "download self torrent_path cookie episodes =
     run_module self ''download'' []
       (map_of
        [(''torrent_path'', torrent_path), (''cookie'', cookie),
         (''episodes'', arg_or PNone episodes)])"

definition download_added ::
  "chain_base \<Rightarrow> pyval \<Rightarrow> pyval \<Rightarrow> run_end" where
  "download_added self context torrent_path =
     run_module self ''download_added'' []
       (map_of
        [(''context'', context), (''torrent_path'', torrent_path)])"

definition list_torrents ::
  "chain_base \<Rightarrow> pyval option \<Rightarrow> pyval option \<Rightarrow> run_end" where
  "list_torrents self status hashs =
     run_module self ''list_torrents'' []
       (map_of
        [(''status'', arg_or PNone status), (''hashs'', arg_or PNone hashs)])"

definition transfer ::
  "chain_base \<Rightarrow> pyval \<Rightarrow> pyval \<Rightarrow> run_end" where
  "transfer self path mediainfo =
     run_module self ''transfer'' []
       (map_of
        [(''path'', path), (''mediainfo'', mediainfo)])"

definition transfer_completed ::
  "chain_base \<Rightarrow> pyval \<Rightarrow> pyval \<Rightarrow> run_end" where
  "transfer_completed self hashs transinfo =
     run_module self ''transfer_completed'' []
       (map_of
        [(''hashs'', hashs), (''transinfo'', transinfo)])"

definition remove_torrents ::
  "chain_base \<Rightarrow> pyval \<Rightarrow> run_end" where
  "remove_torrents self hashs =
     run_module self ''remove_torrents'' []
       (map_of
        [(''hashs'', hashs)])"

definition media_exists ::
  "chain_base \<Rightarrow> pyval \<Rightarrow> run_end" where
  "media_exists self mediainfo =
     run_module self ''media_exists'' []
       (map_of
        [(''mediainfo'', mediainfo)])"

definition refresh_mediaserver ::
  "chain_base \<Rightarrow> pyval \<Rightarrow> pyval \<Rightarrow> run_end" where
  "refresh_mediaserver self mediainfo file_path =
     run_module self ''refresh_mediaserver'' []
       (map_of
        [(''mediainfo'', mediainfo), (''file_path'', file_path)])"

definition post_message ::
  "chain_base \<Rightarrow> pyval \<Rightarrow> pyval option \<Rightarrow> pyval option \<Rightarrow> pyval option \<Rightarrow> run_end" where
  "post_message self title text image' userid =
     run_module self ''post_message'' []
       (map_of
        [(''title'', title), (''text'', arg_or PNone text),
         (''image'', arg_or PNone image'), (''userid'', arg_or PNone userid)])"

definition post_medias_message ::
  "chain_base \<Rightarrow> pyval \<Rightarrow> pyval \<Rightarrow> pyval option \<Rightarrow> run_end" where
  "post_medias_message self title items userid =
     run_module self ''post_medias_message'' []
       (map_of
        [(''title'', title), (''items'', items), (''userid'', arg_or PNone userid)])"

definition post_torrents_message ::
  "chain_base \<Rightarrow> pyval \<Rightarrow> pyval \<Rightarrow> pyval \<Rightarrow> pyval option \<Rightarrow> run_end" where
  "post_torrents_message self title items mediainfo userid =
     run_module self ''post_torrents_message'' []
       (map_of
        [(''title'', title), (''mediainfo'', mediainfo), (''items'', items),
         (''userid'', arg_or PNone userid)])"

definition scrape_metadata ::
  "chain_base \<Rightarrow> pyval \<Rightarrow> pyval \<Rightarrow> run_end" where
  "scrape_metadata self path mediainfo =
     run_module self ''scrape_metadata'' []
       (map_of
        [(''path'', path), (''mediainfo'', mediainfo)])"

definition register_commands ::
  "chain_base \<Rightarrow> pyval \<Rightarrow> run_end" where
  "register_commands self commands =
     run_module self ''register_commands'' []
       (map_of
        [(''commands'', commands)])"

definition douban_discover ::
  "chain_base \<Rightarrow> pyval \<Rightarrow> pyval \<Rightarrow> pyval \<Rightarrow> pyval option \<Rightarrow> pyval option \<Rightarrow> run_end" where
  "douban_discover self mtype sort' tags start count =
     run_module self ''douban_discover'' []
       (map_of
        [(''mtype'', mtype), (''sort'', sort'), (''tags'', tags),
         (''start'', arg_or (PInt 0) start), (''count'', arg_or (PInt 30) count)])"

definition tmdb_discover ::
  "chain_base \<Rightarrow> pyval \<Rightarrow> pyval \<Rightarrow> pyval \<Rightarrow> pyval \<Rightarrow> pyval option \<Rightarrow> run_end" where
  "tmdb_discover self mtype sort_by with_genres with_original_language page =
     run_module self ''tmdb_discover'' []
       (map_of
        [(''mtype'', mtype), (''sort_by'', sort_by), (''with_genres'', with_genres),
         (''with_original_language'', with_original_language),
         (''page'', arg_or (PInt 1) page)])"

definition movie_top250 ::
  "chain_base \<Rightarrow> pyval option \<Rightarrow> pyval option \<Rightarrow> run_end" where
  "movie_top250 self page count =
     run_module self ''movie_top250'' []
       (map_of
        [(''page'', arg_or (PInt 1) page), (''count'', arg_or (PInt 30) count)])"

subsection \<open>Notions used to state the properties\<close>

text \<open>
  Forwarding, in the words of the specification: an operation calls the engine with
  the capability name equal to the operation's name and with the named arguments
  equal to its own parameters, here listed in the order of the method's signature,
  and returns the engine's result.
\<close>

definition forward :: "chain_base \<Rightarrow> string \<Rightarrow> (string \<times> pyval) list \<Rightarrow> run_end" where
  "forward self operation params = run_module self operation [] (map_of params)"

text \<open>
  A module of class \<open>name\<close> whose only attribute is \<open>method\<close>, and whose call has the
  given outcome whatever the arguments; and an object whose module manager returns the
  same modules for every method name. The examples are written with them.
\<close>

definition stub :: "string \<Rightarrow> string \<Rightarrow> outcome \<Rightarrow> module" where
  "stub name method out =
     \<lparr>cls_name = name,
      attrs = (\<lambda>a. if a = method then Some (\<lambda>args kwargs. out) else None)\<rparr>"

definition registry_of :: "module list \<Rightarrow> chain_base" where
  "registry_of ms = \<lparr>modulemanager = (\<lambda>method. ms)\<rparr>"

definition no_kwargs :: kwargs where
  "no_kwargs = Map.empty"

text \<open>The elements that an outcome adds to a list: those of a returned list, else none.\<close>

fun items_of :: "outcome \<Rightarrow> pyval list" where
  "items_of (Returns (PList ys)) = ys"
| "items_of out = []"

text \<open>
  What the caller of \<^verbatim>\<open>__run_module\<close> gets: the value of \<^verbatim>\<open>result\<close> when it
  returns, or the exception that leaves it. And the state at the end, either way:
  it holds what was called and logged.
\<close>

fun caller_gets :: "run_end \<Rightarrow> error + pyval" where
  "caller_gets (Inl (e, s)) = Inl e"
| "caller_gets (Inr s) = Inr (result s)"

fun state_at_end :: "run_end \<Rightarrow> run_state" where
  "state_at_end (Inl (e, s)) = s"
| "state_at_end (Inr s) = s"

text \<open>
  An outcome that the loop gets over: a returned value, or an exception that the
  handler can format and so logs.
\<close>

fun loggable :: "outcome \<Rightarrow> bool" where
  "loggable (Returns v) = True"
| "loggable (Raises err) = (case str_of err of Str_Returns msg \<Rightarrow> True | Str_Raises e \<Rightarrow> False)"

text \<open>
  An outcome that contributes nothing: an exception, or a returned value that
  \<^verbatim>\<open>is_result_empty\<close> takes for empty.
\<close>

fun no_contribution :: "outcome \<Rightarrow> bool" where
  "no_contribution (Returns v) = is_result_empty v v"
| "no_contribution (Raises err) = True"

text \<open>
  The three shapes of the aggregated result, by the two tests of the loop, in the
  loop's order.
\<close>

datatype shape = Absent | Sequence | Scalar

definition shape_of :: "pyval \<Rightarrow> shape" where
  "shape_of v =
     (if is_result_empty v v then Absent
      else if isinstance_list v then Sequence
      else Scalar)"

section \<open>Properties of the loop\<close>

subsection \<open>Single steps\<close>

lemma invoke_Returns_exposes:
  "invoke m method args kwargs = Returns v \<Longrightarrow> exposes m method"
  by (auto simp: invoke_def exposes_def split: option.splits)

lemma result_called [simp]: "result (called m method s) = result s"
  by (simp add: called_def)

lemma logged_called [simp]: "logged (called m method s) = logged s"
  by (simp add: called_def)

lemma invoked_called:
  "invoked (called m method s) = invoked s @ (if exposes m method then [cls_name m] else [])"
  by (simp add: called_def)

lemma handler_Str_Returns:
  "str_of err = Str_Returns msg \<Longrightarrow>
   handler m method err s = Inr (s\<lparr>logged := logged s @ [LogError method (cls_name m) msg]\<rparr>)"
  by (simp add: handler_def)

lemma handler_Str_Raises:
  "str_of err = Str_Raises e \<Longrightarrow> handler m method err s = Inl (e, s)"
  by (simp add: handler_def)

lemma handler_Inr:
  "handler m method err s = Inr s' \<Longrightarrow>
   result s' = result s \<and> invoked s' = invoked s \<and>
   (\<exists>msg. str_of err = Str_Returns msg \<and>
      logged s' = logged s @ [LogError method (cls_name m) msg])"
  by (auto simp: handler_def split: str_outcome.splits)

lemma handler_Inl:
  "handler m method err s = Inl (e, s') \<Longrightarrow> s' = s \<and> str_of err = Str_Raises e"
  by (auto simp: handler_def split: str_outcome.splits)

lemma loggable_Raises:
  "loggable (Raises err) \<longleftrightarrow> (\<exists>msg. str_of err = Str_Returns msg)"
  by (cases "str_of err") simp_all

lemma run_loop_break:
  "\<not> is_result_empty (result s) (result s) \<Longrightarrow> \<not> isinstance_list (result s) \<Longrightarrow>
   run_loop method args kwargs ms s = Inr s"
  by (cases ms) simp_all

lemma run_loop_Returns_empty:
  "is_result_empty (result s) (result s) \<Longrightarrow> invoke m method args kwargs = Returns v \<Longrightarrow>
   run_loop method args kwargs (m # ms) s =
   run_loop method args kwargs ms ((called m method s)\<lparr>result := v\<rparr>)"
  by simp

lemma run_loop_Raises:
  "is_result_empty (result s) (result s) \<or> isinstance_list (result s) \<Longrightarrow>
   invoke m method args kwargs = Raises err \<Longrightarrow> str_of err = Str_Returns msg \<Longrightarrow>
   run_loop method args kwargs (m # ms) s =
   run_loop method args kwargs ms
     ((called m method s)\<lparr>logged := logged s @ [LogError method (cls_name m) msg]\<rparr>)"
  by (auto simp: handler_def)

lemma run_loop_Raises_leaves:
  "is_result_empty (result s) (result s) \<or> isinstance_list (result s) \<Longrightarrow>
   invoke m method args kwargs = Raises err \<Longrightarrow> str_of err = Str_Raises e \<Longrightarrow>
   run_loop method args kwargs (m # ms) s = Inl (e, called m method s)"
  by (auto simp: handler_def)

subsection \<open>The whole loop\<close>

text \<open>The loop over a list in two parts.\<close>

lemma run_loop_append:
  "run_loop method args kwargs (ps @ qs) s =
   (case run_loop method args kwargs ps s of
      Inl raised \<Rightarrow> Inl raised
    | Inr s' \<Rightarrow> run_loop method args kwargs qs s')"
proof (induction ps arbitrary: s)
  case Nil
  show ?case by simp
next
  case (Cons p ps)
  show ?case
  proof (cases "is_result_empty (result s) (result s) \<or> isinstance_list (result s)")
    case True
    then show ?thesis
      using Cons.IH by (auto split: outcome.splits sum.splits)
  next
    case False
    then show ?thesis
      by (simp add: run_loop_break)
  qed
qed

text \<open>The loop returns when every outcome is loggable.\<close>

lemma run_loop_returns:
  "\<forall>m \<in> set ms. loggable (invoke m method args kwargs) \<Longrightarrow>
   \<exists>s'. run_loop method args kwargs ms s = Inr s'"
proof (induction ms arbitrary: s)
  case Nil
  show ?case by simp
next
  case (Cons m ms)
  show ?case
  proof (cases "invoke m method args kwargs")
    case (Returns v)
    with Cons show ?thesis by simp
  next
    case (Raises err)
    with Cons.prems obtain msg where "str_of err = Str_Returns msg"
      by (auto split: str_outcome.splits)
    with Raises Cons show ?thesis
      by (simp add: handler_def)
  qed
qed

text \<open>From a list, the loop returns the list with the later lists appended.\<close>

lemma run_loop_list:
  "result s = PList xs \<Longrightarrow> run_loop method args kwargs ms s = Inr s' \<Longrightarrow>
   result s' = PList (xs @ concat (map (\<lambda>m. items_of (invoke m method args kwargs)) ms)) \<and>
   invoked s' = invoked s @ map cls_name (filter (\<lambda>m. exposes m method) ms)"
proof (induction ms arbitrary: s xs)
  case Nil
  then show ?case by auto
next
  case (Cons m ms)
  show ?case
  proof (cases "invoke m method args kwargs")
    case (Returns temp)
    show ?thesis
    proof (cases "isinstance_list temp")
      case True
      then obtain ys where ys: "temp = PList ys"
        by (cases temp) simp_all
      let ?s1 = "(called m method s)\<lparr>result := PList (xs @ ys)\<rparr>"
      have "run_loop method args kwargs ms ?s1 = Inr s'"
        using Cons.prems Returns ys by simp
      from Cons.IH [OF _ this, of "xs @ ys"] Returns ys show ?thesis
        by (simp add: invoked_called)
    next
      case False
      then have i: "items_of (Returns temp) = []"
        by (cases temp) simp_all
      have "run_loop method args kwargs ms (called m method s) = Inr s'"
        using Cons.prems Returns False by simp
      from Cons.IH [OF _ this, of xs] Cons.prems Returns i show ?thesis
        by (simp add: invoked_called)
    qed
  next
    case (Raises err)
    with Cons.prems obtain s1 where
      h: "handler m method err (called m method s) = Inr s1" and
      r: "run_loop method args kwargs ms s1 = Inr s'"
      by (auto split: sum.splits)
    from handler_Inr [OF h] Cons.prems have "result s1 = PList xs"
      and "invoked s1 = invoked (called m method s)"
      by simp_all
    with Cons.IH [OF _ r, of xs] Raises show ?thesis
      by (simp add: invoked_called)
  qed
qed

text \<open>What the caller gets depends on \<^verbatim>\<open>result\<close> only, not on the log and the calls.\<close>

lemma run_loop_caller_gets_cong:
  "result s = result t \<Longrightarrow>
   caller_gets (run_loop method args kwargs ms s) = caller_gets (run_loop method args kwargs ms t)"
proof (induction ms arbitrary: s t)
  case Nil
  then show ?case by simp
next
  case (Cons m ms)
  show ?case
  proof (cases "invoke m method args kwargs")
    case (Returns v)
    have a: "result ((called m method s)\<lparr>result := w\<rparr>) =
             result ((called m method t)\<lparr>result := w\<rparr>)" for w
      by simp
    have b: "result (called m method s) = result (called m method t)"
      using Cons.prems by simp
    from Returns Cons.prems Cons.IH [OF a] Cons.IH [OF b] show ?thesis
      by simp
  next
    case (Raises err)
    show ?thesis
    proof (cases "str_of err")
      case (Str_Returns msg)
      have "result ((called m method s)\<lparr>logged := logged s @ [LogError method (cls_name m) msg]\<rparr>) =
            result ((called m method t)\<lparr>logged := logged t @ [LogError method (cls_name m) msg]\<rparr>)"
        using Cons.prems by simp
      from Raises Str_Returns Cons.prems Cons.IH [OF this] show ?thesis
        by (simp add: handler_def)
    next
      case (Str_Raises e)
      with Raises Cons.prems show ?thesis
        by (simp add: handler_def)
    qed
  qed
qed

text \<open>The log and the record of calls only grow.\<close>

lemma run_loop_logged_mono:
  "set (logged s) \<subseteq> set (logged (state_at_end (run_loop method args kwargs ms s)))"
proof (induction ms arbitrary: s)
  case Nil
  show ?case by simp
next
  case (Cons m ms)
  show ?case
  proof (cases "invoke m method args kwargs")
    case (Returns v)
    then show ?thesis
      using Cons.IH [of "(called m method s)\<lparr>result := v\<rparr>"]
            Cons.IH [of "(called m method s)\<lparr>result := list_extend (result s) v\<rparr>"]
            Cons.IH [of "called m method s"]
      by simp
  next
    case (Raises err)
    show ?thesis
    proof (cases "str_of err")
      case (Str_Returns msg)
      with Raises show ?thesis
        using Cons.IH [of "(called m method s)\<lparr>logged := logged s @ [LogError method (cls_name m) msg]\<rparr>"]
        by (auto simp: handler_def)
    next
      case (Str_Raises e)
      with Raises show ?thesis
        by (simp add: handler_def)
    qed
  qed
qed

lemma run_loop_invoked_prefix:
  "\<exists>rest. invoked (state_at_end (run_loop method args kwargs ms s)) = invoked s @ rest"
proof (induction ms arbitrary: s)
  case Nil
  show ?case by simp
next
  case (Cons m ms)
  show ?case
  proof (cases "invoke m method args kwargs")
    case (Returns v)
    then show ?thesis
      using Cons.IH [of "(called m method s)\<lparr>result := v\<rparr>"]
            Cons.IH [of "(called m method s)\<lparr>result := list_extend (result s) v\<rparr>"]
            Cons.IH [of "called m method s"]
      by (auto simp: invoked_called)
  next
    case (Raises err)
    show ?thesis
    proof (cases "str_of err")
      case (Str_Returns msg)
      with Raises show ?thesis
        using Cons.IH [of "(called m method s)\<lparr>logged := logged s @ [LogError method (cls_name m) msg]\<rparr>"]
        by (auto simp: handler_def invoked_called)
    next
      case (Str_Raises e)
      with Raises show ?thesis
        by (simp add: handler_def invoked_called)
    qed
  qed
qed

text \<open>A module that has the method is called when the loop reaches it.\<close>

lemma run_loop_invokes_next:
  assumes "is_result_empty (result s) (result s) \<or> isinstance_list (result s)"
      and "exposes m method"
  shows "\<exists>rest. invoked (state_at_end (run_loop method args kwargs (m # ms) s)) =
           invoked s @ [cls_name m] @ rest"
proof (cases "invoke m method args kwargs")
  case (Returns v)
  with assms show ?thesis
    using run_loop_invoked_prefix [of "method" args kwargs ms "(called m method s)\<lparr>result := v\<rparr>"]
          run_loop_invoked_prefix [of "method" args kwargs ms
            "(called m method s)\<lparr>result := list_extend (result s) v\<rparr>"]
          run_loop_invoked_prefix [of "method" args kwargs ms "called m method s"]
    by (auto simp: invoked_called)
next
  case (Raises err)
  show ?thesis
  proof (cases "str_of err")
    case (Str_Returns msg)
    with Raises assms show ?thesis
      using run_loop_invoked_prefix [of "method" args kwargs ms
              "(called m method s)\<lparr>logged := logged s @ [LogError method (cls_name m) msg]\<rparr>"]
      by (auto simp: handler_def invoked_called)
  next
    case (Str_Raises e)
    with Raises assms show ?thesis
      by (auto simp: handler_def invoked_called)
  qed
qed

lemma is_result_empty_iff:
  "is_result_empty r r \<longleftrightarrow> r = PNone \<or> (\<exists>vs. r = PTuple vs \<and> (\<forall>v \<in> set vs. v = PNone))"
  by (cases r) (auto simp: list_all_iff)

lemma shape_of_simps [simp]:
  "shape_of (PList xs) = Sequence"
  "shape_of v = Absent \<longleftrightarrow> is_result_empty v v"
  "shape_of v = Sequence \<longleftrightarrow> isinstance_list v"
  "shape_of v = Scalar \<longleftrightarrow> \<not> is_result_empty v v \<and> \<not> isinstance_list v"
  by (cases v; simp add: shape_of_def)+

text \<open>While nothing is contributed, \<^verbatim>\<open>result\<close> stays empty and every module is tried.\<close>

lemma run_loop_no_contribution:
  "is_result_empty (result s) (result s) \<Longrightarrow>
   \<forall>m \<in> set ms. no_contribution (invoke m method args kwargs) \<Longrightarrow>
   run_loop method args kwargs ms s = Inr s' \<Longrightarrow>
   is_result_empty (result s') (result s') \<and>
   invoked s' = invoked s @ map cls_name (filter (\<lambda>m. exposes m method) ms)"
proof (induction ms arbitrary: s)
  case Nil
  then show ?case by auto
next
  case (Cons m ms)
  show ?case
  proof (cases "invoke m method args kwargs")
    case (Returns v)
    with Cons.prems have e: "is_result_empty v v" by simp
    let ?s1 = "(called m method s)\<lparr>result := v\<rparr>"
    have "run_loop method args kwargs ms ?s1 = Inr s'"
      using Cons.prems Returns by simp
    from Cons.IH [OF _ _ this] e Cons.prems show ?thesis
      by (simp add: invoked_called)
  next
    case (Raises err)
    with Cons.prems obtain s1 where
      h: "handler m method err (called m method s) = Inr s1" and
      r: "run_loop method args kwargs ms s1 = Inr s'"
      by (auto split: sum.splits)
    from handler_Inr [OF h] Cons.prems have "is_result_empty (result s1) (result s1)"
      and "invoked s1 = invoked (called m method s)"
      by simp_all
    with Cons.IH [OF _ _ r] Cons.prems show ?thesis
      by (simp add: invoked_called)
  qed
qed

text \<open>When every call returns an empty value, the last one is returned.\<close>

lemma run_loop_last_empty:
  "ms \<noteq> [] \<Longrightarrow> is_result_empty (result s) (result s) \<Longrightarrow>
   \<forall>m \<in> set ms. \<exists>v. invoke m method args kwargs = Returns v \<and> is_result_empty v v \<Longrightarrow>
   \<exists>s'. run_loop method args kwargs ms s = Inr s' \<and>
        invoke (last ms) method args kwargs = Returns (result s')"
proof (induction ms arbitrary: s)
  case Nil
  then show ?case by simp
next
  case (Cons m ms)
  from Cons.prems obtain v where v: "invoke m method args kwargs = Returns v" "is_result_empty v v"
    by auto
  show ?case
  proof (cases "ms = []")
    case True
    with v Cons.prems show ?thesis by simp
  next
    case False
    with v Cons.prems show ?thesis
      using Cons.IH [of "(called m method s)\<lparr>result := v\<rparr>"] by simp
  qed
qed

text \<open>A module whose call raises an exception that is logged can be left out.\<close>

lemma run_loop_drop_Raises:
  assumes "invoke m method args kwargs = Raises err" and "str_of err = Str_Returns msg"
  shows "caller_gets (run_loop method args kwargs (m # ms) s) =
         caller_gets (run_loop method args kwargs ms s)"
proof (cases "is_result_empty (result s) (result s) \<or> isinstance_list (result s)")
  case True
  let ?s1 = "(called m method s)\<lparr>logged := logged s @ [LogError method (cls_name m) msg]\<rparr>"
  from True assms have "run_loop method args kwargs (m # ms) s =
      run_loop method args kwargs ms ?s1"
    by (rule run_loop_Raises)
  moreover have "caller_gets (run_loop method args kwargs ms ?s1) =
      caller_gets (run_loop method args kwargs ms s)"
    by (rule run_loop_caller_gets_cong) simp
  ultimately show ?thesis by simp
next
  case False
  then show ?thesis by (simp add: run_loop_break)
qed

lemma run_loop_all_Raises:
  "\<forall>p \<in> set ms. \<exists>err msg. invoke p method args kwargs = Raises err \<and>
      str_of err = Str_Returns msg \<Longrightarrow>
   \<exists>s'. run_loop method args kwargs ms s = Inr s' \<and> result s' = result s"
proof (induction ms)
  case Nil
  show ?case by simp
next
  case (Cons m ms)
  then obtain err msg where e: "invoke m method args kwargs = Raises err"
      "str_of err = Str_Returns msg"
    by auto
  then have "caller_gets (run_loop method args kwargs (m # ms) s) =
      caller_gets (run_loop method args kwargs ms s)"
    by (rule run_loop_drop_Raises)
  moreover from Cons obtain s' where "run_loop method args kwargs ms s = Inr s'"
      "result s' = result s"
    by auto
  ultimately show ?case
    by (cases "run_loop method args kwargs (m # ms) s") (auto simp del: run_loop.simps)
qed

text \<open>
  Two runs from empty states: the caller gets the same, or gets an empty value from
  each.
\<close>

lemma run_loop_empty_states:
  "is_result_empty (result s) (result s) \<Longrightarrow> is_result_empty (result t) (result t) \<Longrightarrow>
   caller_gets (run_loop method args kwargs ms s) =
     caller_gets (run_loop method args kwargs ms t) \<or>
   (\<exists>a b. caller_gets (run_loop method args kwargs ms s) = Inr a \<and>
          caller_gets (run_loop method args kwargs ms t) = Inr b \<and>
          is_result_empty a a \<and> is_result_empty b b)"
proof (induction ms arbitrary: s t)
  case Nil
  then show ?case by simp
next
  case (Cons m ms)
  show ?case
  proof (cases "invoke m method args kwargs")
    case (Returns v)
    have "caller_gets (run_loop method args kwargs ms ((called m method s)\<lparr>result := v\<rparr>)) =
          caller_gets (run_loop method args kwargs ms ((called m method t)\<lparr>result := v\<rparr>))"
      by (rule run_loop_caller_gets_cong) simp
    with Returns Cons.prems show ?thesis by simp
  next
    case (Raises err)
    show ?thesis
    proof (cases "str_of err")
      case (Str_Returns msg)
      let ?s1 = "(called m method s)\<lparr>logged := logged s @ [LogError method (cls_name m) msg]\<rparr>"
      let ?t1 = "(called m method t)\<lparr>logged := logged t @ [LogError method (cls_name m) msg]\<rparr>"
      have "run_loop method args kwargs (m # ms) s = run_loop method args kwargs ms ?s1"
        using Cons.prems Raises Str_Returns by (intro run_loop_Raises) simp_all
      moreover have "run_loop method args kwargs (m # ms) t = run_loop method args kwargs ms ?t1"
        using Cons.prems Raises Str_Returns by (intro run_loop_Raises) simp_all
      moreover have "caller_gets (run_loop method args kwargs ms ?s1) =
          caller_gets (run_loop method args kwargs ms ?t1) \<or>
        (\<exists>a b. caller_gets (run_loop method args kwargs ms ?s1) = Inr a \<and>
          caller_gets (run_loop method args kwargs ms ?t1) = Inr b \<and>
          is_result_empty a a \<and> is_result_empty b b)"
        using Cons.prems by (intro Cons.IH) simp_all
      ultimately show ?thesis by (simp del: run_loop.simps)
    next
      case (Str_Raises e)
      with Raises Cons.prems show ?thesis
        by (simp add: handler_def)
    qed
  qed
qed

text \<open>A logged exception against a returned \<^verbatim>\<open>None\<close> at the same place.\<close>

lemma run_loop_Raises_as_None:
  assumes "invoke m method args kwargs = Raises err" and "str_of err = Str_Returns msg"
      and "invoke m' method args kwargs = Returns PNone"
  shows "caller_gets (run_loop method args kwargs (m # ms) s) =
           caller_gets (run_loop method args kwargs (m' # ms) s) \<or>
         (\<exists>a b. caller_gets (run_loop method args kwargs (m # ms) s) = Inr a \<and>
            caller_gets (run_loop method args kwargs (m' # ms) s) = Inr b \<and>
            is_result_empty a a \<and> is_result_empty b b)"
proof (cases "is_result_empty (result s) (result s)")
  case True
  let ?s1 = "(called m method s)\<lparr>logged := logged s @ [LogError method (cls_name m) msg]\<rparr>"
  let ?t1 = "(called m' method s)\<lparr>result := PNone\<rparr>"
  have "run_loop method args kwargs (m # ms) s = run_loop method args kwargs ms ?s1"
    using True assms by (intro run_loop_Raises) simp_all
  moreover have "run_loop method args kwargs (m' # ms) s = run_loop method args kwargs ms ?t1"
    using True assms by (intro run_loop_Returns_empty) simp_all
  moreover have "caller_gets (run_loop method args kwargs ms ?s1) =
          caller_gets (run_loop method args kwargs ms ?t1) \<or>
        (\<exists>a b. caller_gets (run_loop method args kwargs ms ?s1) = Inr a \<and>
          caller_gets (run_loop method args kwargs ms ?t1) = Inr b \<and>
          is_result_empty a a \<and> is_result_empty b b)"
    using True by (intro run_loop_empty_states) simp_all
  ultimately show ?thesis by (simp del: run_loop.simps)
next
  case False
  show ?thesis
  proof (cases "isinstance_list (result s)")
    case True
    let ?s1 = "(called m method s)\<lparr>logged := logged s @ [LogError method (cls_name m) msg]\<rparr>"
    have "run_loop method args kwargs (m # ms) s = run_loop method args kwargs ms ?s1"
      using True assms by (intro run_loop_Raises) simp_all
    moreover have "run_loop method args kwargs (m' # ms) s =
        run_loop method args kwargs ms (called m' method s)"
      using True False assms by simp
    moreover have "caller_gets (run_loop method args kwargs ms ?s1) =
        caller_gets (run_loop method args kwargs ms (called m' method s))"
      by (rule run_loop_caller_gets_cong) simp
    ultimately show ?thesis by (simp del: run_loop.simps)
  next
    case False
    with \<open>\<not> is_result_empty (result s) (result s)\<close> show ?thesis
      by (simp add: run_loop_break)
  qed
qed

text \<open>A result that is not empty keeps its shape.\<close>

lemma run_loop_shape:
  assumes "\<not> is_result_empty (result s) (result s)"
      and "run_loop method args kwargs ms s = Inr s'"
  shows "shape_of (result s') = shape_of (result s)"
proof (cases "isinstance_list (result s)")
  case True
  then obtain xs where "result s = PList xs"
    by (cases "result s") simp_all
  with assms show ?thesis
    using run_loop_list [of s xs "method" args kwargs ms s'] by simp
next
  case False
  with assms show ?thesis
    by (simp add: run_loop_break)
qed

subsection \<open>The keyword arguments of \<^verbatim>\<open>post_torrents_message\<close>\<close>

text \<open>
  The one method whose call writes the keyword arguments in another order than its
  signature: \<^verbatim>\<open>mediainfo\<close> before \<^verbatim>\<open>items\<close>. The dict is the same.
\<close>

lemma post_torrents_message_kwargs:
  "map_of [(''title'', title), (''mediainfo'', mediainfo), (''items'', items),
           (''userid'', userid)] =
   map_of [(''title'', title), (''items'', items), (''mediainfo'', mediainfo),
           (''userid'', userid :: pyval)]"
  by (rule ext) simp

lemma post_torrents_message_forward:
  "post_torrents_message self title items mediainfo userid =
     forward self ''post_torrents_message''
        [(''title'', title), (''items'', items), (''mediainfo'', mediainfo),
         (''userid'', arg_or PNone userid)]"
  unfolding post_torrents_message_def forward_def
  by (simp only: post_torrents_message_kwargs)

section \<open>The properties of the specification\<close>

text \<open>
  In what follows a dispatch returns when \<^verbatim>\<open>__run_module\<close> ends on the right of
  \<open>run_end\<close>; it does so whenever every exception that a call raises is one that the
  handler can format (\<open>loggable\<close>).
\<close>

text \<open>
  C1, first-wins scalar policy with short-circuit. When the module manager returns
  three modules for a method, the call of the first returns \<^verbatim>\<open>None\<close> and the call of
  the second returns the string \<^verbatim>\<open>"X"\<close>, then \<^verbatim>\<open>__run_module\<close> returns \<^verbatim>\<open>"X"\<close>, has
  called the first two modules and no other, whatever the third would do, and has
  logged the debug entry only. In general, from a state whose \<^verbatim>\<open>result\<close> is neither
  empty nor a list the loop returns at once and changes nothing, whatever modules
  remain: none is called, nothing is logged.
\<close>

theorem run_module_first_wins:
  "(modulemanager self method = [p1, p2, p3] \<and>
    invoke p1 method args kwargs = Returns PNone \<and>
    invoke p2 method args kwargs = Returns (PStr ''X'') \<longrightarrow>
      run_module self method args kwargs =
        Inr \<lparr>result = PStr ''X'', logged = [LogDebug method],
             invoked = [cls_name p1, cls_name p2]\<rparr>) \<and>
   (\<not> is_result_empty (result s) (result s) \<and> \<not> isinstance_list (result s) \<longrightarrow>
      run_loop method args kwargs ms s = Inr s)"
proof (intro conjI impI)
  assume h: "modulemanager self method = [p1, p2, p3] \<and>
    invoke p1 method args kwargs = Returns PNone \<and>
    invoke p2 method args kwargs = Returns (PStr ''X'')"
  then have e: "exposes p1 method" "exposes p2 method"
    by (auto dest: invoke_Returns_exposes)
  from h e show "run_module self method args kwargs =
      Inr \<lparr>result = PStr ''X'', logged = [LogDebug method],
           invoked = [cls_name p1, cls_name p2]\<rparr>"
    by (simp add: run_module_def called_def)
next
  assume "\<not> is_result_empty (result s) (result s) \<and> \<not> isinstance_list (result s)"
  then show "run_loop method args kwargs ms s = Inr s"
    by (simp add: run_loop_break)
qed

theorem run_module_first_wins_witness:
  "run_module
     (registry_of
       [stub ''P1'' ''recognize_media'' (Returns PNone),
        stub ''P2'' ''recognize_media'' (Returns (PStr ''X'')),
        stub ''P3'' ''recognize_media'' (Returns (PStr ''Y''))])
     ''recognize_media'' [] no_kwargs =
     Inr \<lparr>result = PStr ''X'', logged = [LogDebug ''recognize_media''],
          invoked = [''P1'', ''P2'']\<rparr> \<and>
   run_loop ''recognize_media'' [] no_kwargs
     [stub ''P3'' ''recognize_media'' (Returns (PStr ''Y''))]
     \<lparr>result = PStr ''X'', logged = [], invoked = [''P1'', ''P2'']\<rparr> =
     Inr \<lparr>result = PStr ''X'', logged = [], invoked = [''P1'', ''P2'']\<rparr>"
  using run_module_first_wins
    [of "registry_of
       [stub ''P1'' ''recognize_media'' (Returns PNone),
        stub ''P2'' ''recognize_media'' (Returns (PStr ''X'')),
        stub ''P3'' ''recognize_media'' (Returns (PStr ''Y''))]"
      "''recognize_media''"
      "stub ''P1'' ''recognize_media'' (Returns PNone)"
      "stub ''P2'' ''recognize_media'' (Returns (PStr ''X''))"
      "stub ''P3'' ''recognize_media'' (Returns (PStr ''Y''))"
      "[]" no_kwargs
      "\<lparr>result = PStr ''X'', logged = [], invoked = [''P1'', ''P2'']\<rparr>"
      "[stub ''P3'' ''recognize_media'' (Returns (PStr ''Y''))]"]
  by (simp add: registry_of_def stub_def invoke_def)

text \<open>
  C2, accumulation policy. When the module manager returns four modules whose calls
  return \<^verbatim>\<open>[1, 2]\<close>, \<^verbatim>\<open>[3]\<close>, \<^verbatim>\<open>None\<close> and \<^verbatim>\<open>[4]\<close>, then \<^verbatim>\<open>__run_module\<close>
  returns \<^verbatim>\<open>[1, 2, 3, 4]\<close> and has called all four, in this order. In general, from
  a state whose \<^verbatim>\<open>result\<close> is a list, whenever the loop returns it has called every
  remaining module that has the method, and \<^verbatim>\<open>result\<close> is the list followed by the
  elements of every list that a remaining module returns, in the order of the modules
  and, for each module, in the order of its list; a module that returns something
  else, or raises an exception that is logged, adds nothing and does not stop the
  loop. And the loop does return, with that result, when every outcome of a remaining
  module is loggable.
\<close>

theorem run_module_accumulates:
  "(modulemanager self method = [p1, p2, p3, p4] \<and>
    invoke p1 method args kwargs = Returns (PList [PInt 1, PInt 2]) \<and>
    invoke p2 method args kwargs = Returns (PList [PInt 3]) \<and>
    invoke p3 method args kwargs = Returns PNone \<and>
    invoke p4 method args kwargs = Returns (PList [PInt 4]) \<longrightarrow>
      run_module self method args kwargs =
        Inr \<lparr>result = PList [PInt 1, PInt 2, PInt 3, PInt 4], logged = [LogDebug method],
             invoked = [cls_name p1, cls_name p2, cls_name p3, cls_name p4]\<rparr>) \<and>
   (result s = PList xs \<and> run_loop method args kwargs ms s = Inr s' \<longrightarrow>
      result s' =
        PList (xs @ concat (map (\<lambda>m. items_of (invoke m method args kwargs)) ms)) \<and>
      invoked s' = invoked s @ map cls_name (filter (\<lambda>m. exposes m method) ms)) \<and>
   (result s = PList xs \<and> (\<forall>m \<in> set ms. loggable (invoke m method args kwargs)) \<longrightarrow>
      (\<exists>t. run_loop method args kwargs ms s = Inr t \<and>
         result t =
           PList (xs @ concat (map (\<lambda>m. items_of (invoke m method args kwargs)) ms)) \<and>
         invoked t = invoked s @ map cls_name (filter (\<lambda>m. exposes m method) ms)))"
proof (intro conjI impI)
  assume h: "modulemanager self method = [p1, p2, p3, p4] \<and>
    invoke p1 method args kwargs = Returns (PList [PInt 1, PInt 2]) \<and>
    invoke p2 method args kwargs = Returns (PList [PInt 3]) \<and>
    invoke p3 method args kwargs = Returns PNone \<and>
    invoke p4 method args kwargs = Returns (PList [PInt 4])"
  then have e: "exposes p1 method" "exposes p2 method" "exposes p3 method" "exposes p4 method"
    by (auto dest: invoke_Returns_exposes)
  from h e show "run_module self method args kwargs =
      Inr \<lparr>result = PList [PInt 1, PInt 2, PInt 3, PInt 4], logged = [LogDebug method],
           invoked = [cls_name p1, cls_name p2, cls_name p3, cls_name p4]\<rparr>"
    by (simp add: run_module_def called_def)
next
  assume r: "result s = PList xs \<and> run_loop method args kwargs ms s = Inr s'"
  then show "result s' =
      PList (xs @ concat (map (\<lambda>m. items_of (invoke m method args kwargs)) ms))"
    and "invoked s' = invoked s @ map cls_name (filter (\<lambda>m. exposes m method) ms)"
    using run_loop_list [of s xs "method" args kwargs ms s'] by simp_all
next
  assume r: "result s = PList xs \<and> (\<forall>m \<in> set ms. loggable (invoke m method args kwargs))"
  then obtain t where t: "run_loop method args kwargs ms s = Inr t"
    using run_loop_returns [of ms "method" args kwargs s] by blast
  with r show "\<exists>t. run_loop method args kwargs ms s = Inr t \<and>
      result t =
        PList (xs @ concat (map (\<lambda>m. items_of (invoke m method args kwargs)) ms)) \<and>
      invoked t = invoked s @ map cls_name (filter (\<lambda>m. exposes m method) ms)"
    using run_loop_list [of s xs "method" args kwargs ms t] by simp
qed

theorem run_module_accumulates_witness:
  "run_module
     (registry_of
       [stub ''P1'' ''search_torrents'' (Returns (PList [PInt 1, PInt 2])),
        stub ''P2'' ''search_torrents'' (Returns (PList [PInt 3])),
        stub ''P3'' ''search_torrents'' (Returns PNone),
        stub ''P4'' ''search_torrents'' (Returns (PList [PInt 4]))])
     ''search_torrents'' [] no_kwargs =
     Inr \<lparr>result = PList [PInt 1, PInt 2, PInt 3, PInt 4],
          logged = [LogDebug ''search_torrents''],
          invoked = [''P1'', ''P2'', ''P3'', ''P4'']\<rparr> \<and>
   run_loop ''search_torrents'' [] no_kwargs
     [stub ''P2'' ''search_torrents'' (Returns (PList [PInt 3])),
      stub ''P3'' ''search_torrents'' (Raises (PyExc ''ValueError'' (Str_Returns ''boom''))),
      stub ''P4'' ''search_torrents'' (Returns (PList [PInt 4]))]
     \<lparr>result = PList [PInt 1, PInt 2], logged = [], invoked = [''P1'']\<rparr> =
     Inr \<lparr>result = PList [PInt 1, PInt 2, PInt 3, PInt 4],
          logged = [LogError ''search_torrents'' ''P3'' ''boom''],
          invoked = [''P1'', ''P2'', ''P3'', ''P4'']\<rparr>"
  using run_module_accumulates
    [of "registry_of
       [stub ''P1'' ''search_torrents'' (Returns (PList [PInt 1, PInt 2])),
        stub ''P2'' ''search_torrents'' (Returns (PList [PInt 3])),
        stub ''P3'' ''search_torrents'' (Returns PNone),
        stub ''P4'' ''search_torrents'' (Returns (PList [PInt 4]))]"
      "''search_torrents''"
      "stub ''P1'' ''search_torrents'' (Returns (PList [PInt 1, PInt 2]))"
      "stub ''P2'' ''search_torrents'' (Returns (PList [PInt 3]))"
      "stub ''P3'' ''search_torrents'' (Returns PNone)"
      "stub ''P4'' ''search_torrents'' (Returns (PList [PInt 4]))"
      "[]" no_kwargs
      "\<lparr>result = PList [PInt 1, PInt 2], logged = [], invoked = [''P1'']\<rparr>"
      "[PInt 1, PInt 2]"
      "[stub ''P2'' ''search_torrents'' (Returns (PList [PInt 3])),
        stub ''P3'' ''search_torrents'' (Raises (PyExc ''ValueError'' (Str_Returns ''boom''))),
        stub ''P4'' ''search_torrents'' (Returns (PList [PInt 4]))]"
      "\<lparr>result = PList [PInt 1, PInt 2, PInt 3, PInt 4],
          logged = [LogError ''search_torrents'' ''P3'' ''boom''],
          invoked = [''P1'', ''P2'', ''P3'', ''P4'']\<rparr>"]
  by (simp add: registry_of_def stub_def invoke_def exposes_def called_def handler_def)

text \<open>
  C3, fault isolation. The specification says that a module whose call raises is
  treated as if it had returned the absent value, and that no exception reaches the
  caller. Neither holds as stated.
  \<^item> After a module has returned \<^verbatim>\<open>(None, None)\<close>, a second module that raises leaves
    \<^verbatim>\<open>(None, None)\<close> as the value returned, while a second module that returns
    \<^verbatim>\<open>None\<close> makes it \<^verbatim>\<open>None\<close>: the exception keeps \<^verbatim>\<open>result\<close>, the returned value
    replaces it.
  \<^item> When the first module raises an exception whose \<^verbatim>\<open>__str__\<close> raises
    \<^verbatim>\<open>RuntimeError\<close>, the handler raises it while building the log message: the
    \<^verbatim>\<open>RuntimeError\<close> leaves \<^verbatim>\<open>__run_module\<close>, nothing but the debug entry is logged, and
    the second module, which would return \<^verbatim>\<open>"X"\<close>, is never called.
\<close>

theorem run_module_fault_not_as_absent:
  "run_module
     (registry_of
       [stub ''P1'' ''prepare_recognize'' (Returns (PTuple [PNone, PNone])),
        stub ''P2'' ''prepare_recognize'' (Raises (PyExc ''ValueError'' (Str_Returns ''boom'')))])
     ''prepare_recognize'' [] no_kwargs =
     Inr \<lparr>result = PTuple [PNone, PNone],
          logged = [LogDebug ''prepare_recognize'',
                    LogError ''prepare_recognize'' ''P2'' ''boom''],
          invoked = [''P1'', ''P2'']\<rparr> \<and>
   run_module
     (registry_of
       [stub ''P1'' ''prepare_recognize'' (Returns (PTuple [PNone, PNone])),
        stub ''P2'' ''prepare_recognize'' (Returns PNone)])
     ''prepare_recognize'' [] no_kwargs =
     Inr \<lparr>result = PNone, logged = [LogDebug ''prepare_recognize''],
          invoked = [''P1'', ''P2'']\<rparr> \<and>
   run_module
     (registry_of
       [stub ''P1'' ''recognize_media''
          (Raises (PyExc ''BadError'' (Str_Raises (Error ''RuntimeError'' ''no text'')))),
        stub ''P2'' ''recognize_media'' (Returns (PStr ''X''))])
     ''recognize_media'' [] no_kwargs =
     Inl (Error ''RuntimeError'' ''no text'',
          \<lparr>result = PNone, logged = [LogDebug ''recognize_media''], invoked = [''P1'']\<rparr>)"
  by (simp add: run_module_def registry_of_def stub_def invoke_def exposes_def called_def
      handler_def)

text \<open>
  C3 as the code has it. When the call of a module raises an exception that the
  handler can format:
  \<^item> the caller gets what it gets when that module is left out of the list, whatever
    modules stand before and after it;
  \<^item> if the module is reached while \<^verbatim>\<open>result\<close> is empty or a list, the loop goes on
    with the modules after it, from the same \<^verbatim>\<open>result\<close>, and the log holds an error
    entry with the method name, the class name of the module and the text of the
    exception;
  \<^item> compared with the same list in which that module returns \<^verbatim>\<open>None\<close> instead, the
    caller gets the same, or gets an empty value in both (a tuple of \<^verbatim>\<open>None\<close>s left
    by an earlier module is kept by the exception and replaced by the \<^verbatim>\<open>None\<close>).
  When every outcome of a call is a returned value or such an exception,
  \<^verbatim>\<open>__run_module\<close> returns: no exception reaches the caller. With two modules, the
  first raising such an exception and the second returning \<^verbatim>\<open>"X"\<close>, the value
  returned is \<^verbatim>\<open>"X"\<close>, and the log holds the debug entry and the error entry of the
  first module.
\<close>

theorem run_module_isolates_faults:
  "(invoke m method args kwargs = Raises err \<and> str_of err = Str_Returns msg \<longrightarrow>
      caller_gets (run_loop method args kwargs (ps @ m # qs) s) =
        caller_gets (run_loop method args kwargs (ps @ qs) s) \<and>
      (is_result_empty (result s) (result s) \<or> isinstance_list (result s) \<longrightarrow>
         run_loop method args kwargs (m # qs) s =
           run_loop method args kwargs qs
             ((called m method s)\<lparr>logged := logged s @ [LogError method (cls_name m) msg]\<rparr>) \<and>
         result ((called m method s)\<lparr>logged := logged s @ [LogError method (cls_name m) msg]\<rparr>) =
           result s \<and>
         LogError method (cls_name m) msg
           \<in> set (logged (state_at_end (run_loop method args kwargs (m # qs) s))))) \<and>
   (invoke m method args kwargs = Raises err \<and> str_of err = Str_Returns msg \<and>
    invoke m' method args kwargs = Returns PNone \<longrightarrow>
      caller_gets (run_loop method args kwargs (ps @ m # qs) s) =
        caller_gets (run_loop method args kwargs (ps @ m' # qs) s) \<or>
      (\<exists>a b. caller_gets (run_loop method args kwargs (ps @ m # qs) s) = Inr a \<and>
             caller_gets (run_loop method args kwargs (ps @ m' # qs) s) = Inr b \<and>
             is_result_empty a a \<and> is_result_empty b b)) \<and>
   ((\<forall>p \<in> set (modulemanager self method). loggable (invoke p method args kwargs)) \<longrightarrow>
      (\<exists>t. run_module self method args kwargs = Inr t)) \<and>
   (modulemanager self' method = [p1, p2] \<and>
    invoke p1 method args kwargs = Raises err \<and> str_of err = Str_Returns msg \<and>
    invoke p2 method args kwargs = Returns (PStr ''X'') \<longrightarrow>
      caller_gets (run_module self' method args kwargs) = Inr (PStr ''X'') \<and>
      logged (state_at_end (run_module self' method args kwargs)) =
        [LogDebug method, LogError method (cls_name p1) msg])"
proof (intro conjI impI)
  assume r: "invoke m method args kwargs = Raises err \<and> str_of err = Str_Returns msg"
  have drop: "caller_gets (run_loop method args kwargs (m # qs) t) =
      caller_gets (run_loop method args kwargs qs t)" for t
    using r by (intro run_loop_drop_Raises [of m "method" args kwargs err msg]) simp_all
  show "caller_gets (run_loop method args kwargs (ps @ m # qs) s) =
      caller_gets (run_loop method args kwargs (ps @ qs) s)"
  proof (cases "run_loop method args kwargs ps s")
    case (Inl raised)
    then show ?thesis
      by (simp add: run_loop_append del: run_loop.simps)
  next
    case (Inr t)
    with drop [of t] show ?thesis
      by (simp add: run_loop_append del: run_loop.simps)
  qed
  assume n: "is_result_empty (result s) (result s) \<or> isinstance_list (result s)"
  let ?s1 = "(called m method s)\<lparr>logged := logged s @ [LogError method (cls_name m) msg]\<rparr>"
  from n r show step: "run_loop method args kwargs (m # qs) s =
      run_loop method args kwargs qs ?s1"
    using run_loop_Raises [of s m "method" args kwargs err msg qs] by blast
  show "result ?s1 = result s"
    by simp
  have "LogError method (cls_name m) msg \<in> set (logged ?s1)"
    by simp
  then show "LogError method (cls_name m) msg
      \<in> set (logged (state_at_end (run_loop method args kwargs (m # qs) s)))"
    unfolding step
    using run_loop_logged_mono [of ?s1 "method" args kwargs qs]
    by blast
next
  assume r: "invoke m method args kwargs = Raises err \<and> str_of err = Str_Returns msg \<and>
    invoke m' method args kwargs = Returns PNone"
  have cmp: "caller_gets (run_loop method args kwargs (m # qs) t) =
        caller_gets (run_loop method args kwargs (m' # qs) t) \<or>
      (\<exists>a b. caller_gets (run_loop method args kwargs (m # qs) t) = Inr a \<and>
             caller_gets (run_loop method args kwargs (m' # qs) t) = Inr b \<and>
             is_result_empty a a \<and> is_result_empty b b)" for t
    using r by (intro run_loop_Raises_as_None [of m "method" args kwargs err msg m']) simp_all
  show "caller_gets (run_loop method args kwargs (ps @ m # qs) s) =
        caller_gets (run_loop method args kwargs (ps @ m' # qs) s) \<or>
      (\<exists>a b. caller_gets (run_loop method args kwargs (ps @ m # qs) s) = Inr a \<and>
             caller_gets (run_loop method args kwargs (ps @ m' # qs) s) = Inr b \<and>
             is_result_empty a a \<and> is_result_empty b b)"
  proof (cases "run_loop method args kwargs ps s")
    case (Inl raised)
    then show ?thesis
      by (simp add: run_loop_append del: run_loop.simps)
  next
    case (Inr t)
    with cmp [of t] show ?thesis
      by (simp add: run_loop_append del: run_loop.simps)
  qed
next
  assume "\<forall>p \<in> set (modulemanager self method). loggable (invoke p method args kwargs)"
  then show "\<exists>t. run_module self method args kwargs = Inr t"
    unfolding run_module_def by (rule run_loop_returns)
next
  assume h: "modulemanager self' method = [p1, p2] \<and>
    invoke p1 method args kwargs = Raises err \<and> str_of err = Str_Returns msg \<and>
    invoke p2 method args kwargs = Returns (PStr ''X'')"
  then show "caller_gets (run_module self' method args kwargs) = Inr (PStr ''X'')"
    by (simp add: run_module_def handler_def)
  from h show "logged (state_at_end (run_module self' method args kwargs)) =
      [LogDebug method, LogError method (cls_name p1) msg]"
    by (simp add: run_module_def handler_def)
qed

theorem run_module_isolates_faults_witness:
  "caller_gets (run_loop ''recognize_media'' [] no_kwargs
     ([stub ''P0'' ''recognize_media'' (Returns PNone)] @
      stub ''P1'' ''recognize_media'' (Raises (PyExc ''ValueError'' (Str_Returns ''boom''))) #
      [stub ''P2'' ''recognize_media'' (Returns (PStr ''X''))])
     \<lparr>result = PNone, logged = [], invoked = []\<rparr>) = Inr (PStr ''X'') \<and>
   caller_gets (run_loop ''recognize_media'' [] no_kwargs
     ([stub ''P0'' ''recognize_media'' (Returns PNone)] @
      [stub ''P2'' ''recognize_media'' (Returns (PStr ''X''))])
     \<lparr>result = PNone, logged = [], invoked = []\<rparr>) = Inr (PStr ''X'') \<and>
   caller_gets (run_loop ''recognize_media'' [] no_kwargs
     ([stub ''P0'' ''recognize_media'' (Returns PNone)] @
      stub ''P1'' ''recognize_media'' (Returns PNone) #
      [stub ''P2'' ''recognize_media'' (Returns (PStr ''X''))])
     \<lparr>result = PNone, logged = [], invoked = []\<rparr>) = Inr (PStr ''X'') \<and>
   run_loop ''recognize_media'' [] no_kwargs
     (stub ''P1'' ''recognize_media'' (Raises (PyExc ''ValueError'' (Str_Returns ''boom''))) #
      [stub ''P2'' ''recognize_media'' (Returns (PStr ''X''))])
     \<lparr>result = PNone, logged = [], invoked = []\<rparr> =
     Inr \<lparr>result = PStr ''X'', logged = [LogError ''recognize_media'' ''P1'' ''boom''],
          invoked = [''P1'', ''P2'']\<rparr> \<and>
   run_module
     (registry_of
       [stub ''P1'' ''recognize_media'' (Raises (PyExc ''ValueError'' (Str_Returns ''boom''))),
        stub ''P2'' ''recognize_media'' (Returns (PStr ''X''))])
     ''recognize_media'' [] no_kwargs =
     Inr \<lparr>result = PStr ''X'',
          logged = [LogDebug ''recognize_media'',
                    LogError ''recognize_media'' ''P1'' ''boom''],
          invoked = [''P1'', ''P2'']\<rparr>"
  using run_module_isolates_faults
    [of "stub ''P1'' ''recognize_media'' (Raises (PyExc ''ValueError'' (Str_Returns ''boom'')))"
      "''recognize_media''" "[]" no_kwargs "PyExc ''ValueError'' (Str_Returns ''boom'')"
      "''boom''"
      "[stub ''P0'' ''recognize_media'' (Returns PNone)]"
      "[stub ''P2'' ''recognize_media'' (Returns (PStr ''X''))]"
      "\<lparr>result = PNone, logged = [], invoked = []\<rparr>"
      "stub ''P1'' ''recognize_media'' (Returns PNone)"
      "registry_of
       [stub ''P1'' ''recognize_media'' (Raises (PyExc ''ValueError'' (Str_Returns ''boom''))),
        stub ''P2'' ''recognize_media'' (Returns (PStr ''X''))]"
      "registry_of
       [stub ''P1'' ''recognize_media'' (Raises (PyExc ''ValueError'' (Str_Returns ''boom''))),
        stub ''P2'' ''recognize_media'' (Returns (PStr ''X''))]"
      "stub ''P1'' ''recognize_media'' (Raises (PyExc ''ValueError'' (Str_Returns ''boom'')))"
      "stub ''P2'' ''recognize_media'' (Returns (PStr ''X''))"]
  by (simp add: run_module_def registry_of_def stub_def invoke_def exposes_def called_def
      handler_def)

text \<open>
  C4, mixed-shape drop. When the module manager returns three modules whose calls
  return \<^verbatim>\<open>[1, 2]\<close>, the string \<^verbatim>\<open>"scalar"\<close> and \<^verbatim>\<open>[3]\<close>, then \<^verbatim>\<open>__run_module\<close>
  returns \<^verbatim>\<open>[1, 2, 3]\<close> and has called all three. In general, when \<^verbatim>\<open>result\<close> is a
  list and the call of the next module returns a value that is not a list, the loop
  goes on with the modules after it from the same \<^verbatim>\<open>result\<close>: the value is dropped
  and only the call is recorded.
\<close>

theorem run_module_drops_mixed_shape:
  "(modulemanager self method = [p1, p2, p3] \<and>
    invoke p1 method args kwargs = Returns (PList [PInt 1, PInt 2]) \<and>
    invoke p2 method args kwargs = Returns (PStr ''scalar'') \<and>
    invoke p3 method args kwargs = Returns (PList [PInt 3]) \<longrightarrow>
      run_module self method args kwargs =
        Inr \<lparr>result = PList [PInt 1, PInt 2, PInt 3], logged = [LogDebug method],
             invoked = [cls_name p1, cls_name p2, cls_name p3]\<rparr>) \<and>
   (isinstance_list (result s) \<and> invoke m method args kwargs = Returns v \<and>
    \<not> isinstance_list v \<longrightarrow>
      run_loop method args kwargs (m # ms) s =
        run_loop method args kwargs ms (s\<lparr>invoked := invoked s @ [cls_name m]\<rparr>))"
proof (intro conjI impI)
  assume h: "modulemanager self method = [p1, p2, p3] \<and>
    invoke p1 method args kwargs = Returns (PList [PInt 1, PInt 2]) \<and>
    invoke p2 method args kwargs = Returns (PStr ''scalar'') \<and>
    invoke p3 method args kwargs = Returns (PList [PInt 3])"
  then have e: "exposes p1 method" "exposes p2 method" "exposes p3 method"
    by (auto dest: invoke_Returns_exposes)
  from h e show "run_module self method args kwargs =
      Inr \<lparr>result = PList [PInt 1, PInt 2, PInt 3], logged = [LogDebug method],
           invoked = [cls_name p1, cls_name p2, cls_name p3]\<rparr>"
    by (simp add: run_module_def called_def)
next
  assume h: "isinstance_list (result s) \<and> invoke m method args kwargs = Returns v \<and>
    \<not> isinstance_list v"
  then obtain xs where xs: "result s = PList xs"
    by (cases "result s") simp_all
  from h have "exposes m method"
    by (auto dest: invoke_Returns_exposes)
  with h xs show "run_loop method args kwargs (m # ms) s =
      run_loop method args kwargs ms (s\<lparr>invoked := invoked s @ [cls_name m]\<rparr>)"
    by (simp add: called_def)
qed

theorem run_module_drops_mixed_shape_witness:
  "run_module
     (registry_of
       [stub ''P1'' ''search_torrents'' (Returns (PList [PInt 1, PInt 2])),
        stub ''P2'' ''search_torrents'' (Returns (PStr ''scalar'')),
        stub ''P3'' ''search_torrents'' (Returns (PList [PInt 3]))])
     ''search_torrents'' [] no_kwargs =
     Inr \<lparr>result = PList [PInt 1, PInt 2, PInt 3], logged = [LogDebug ''search_torrents''],
          invoked = [''P1'', ''P2'', ''P3'']\<rparr> \<and>
   run_loop ''search_torrents'' [] no_kwargs
     [stub ''P2'' ''search_torrents'' (Returns (PStr ''scalar'')),
      stub ''P3'' ''search_torrents'' (Returns (PList [PInt 3]))]
     \<lparr>result = PList [PInt 1, PInt 2], logged = [], invoked = [''P1'']\<rparr> =
   run_loop ''search_torrents'' [] no_kwargs
     [stub ''P3'' ''search_torrents'' (Returns (PList [PInt 3]))]
     \<lparr>result = PList [PInt 1, PInt 2], logged = [], invoked = [''P1'', ''P2'']\<rparr>"
  using run_module_drops_mixed_shape
    [of "registry_of
       [stub ''P1'' ''search_torrents'' (Returns (PList [PInt 1, PInt 2])),
        stub ''P2'' ''search_torrents'' (Returns (PStr ''scalar'')),
        stub ''P3'' ''search_torrents'' (Returns (PList [PInt 3]))]"
      "''search_torrents''"
      "stub ''P1'' ''search_torrents'' (Returns (PList [PInt 1, PInt 2]))"
      "stub ''P2'' ''search_torrents'' (Returns (PStr ''scalar''))"
      "stub ''P3'' ''search_torrents'' (Returns (PList [PInt 3]))"
      "[]" no_kwargs
      "\<lparr>result = PList [PInt 1, PInt 2], logged = [], invoked = [''P1'']\<rparr>"
      "stub ''P2'' ''search_torrents'' (Returns (PStr ''scalar''))"
      "PStr ''scalar''"
      "[stub ''P3'' ''search_torrents'' (Returns (PList [PInt 3]))]"]
  by (simp add: registry_of_def stub_def invoke_def exposes_def)

text \<open>
  C5, tuple-emptiness rule. At its call \<^verbatim>\<open>is_result_empty(result)\<close> holds exactly when
  \<^verbatim>\<open>result\<close> is \<^verbatim>\<open>None\<close> or a tuple all of whose elements are \<^verbatim>\<open>None\<close>. Hence:
  \<^item> when the call of a module returns \<^verbatim>\<open>(None, None)\<close>, which happens only while
    \<^verbatim>\<open>result\<close> is empty or a list, the next module that has the method is called
    as well, however the loop ends afterwards;
  \<^item> when the call of a module returns \<^verbatim>\<open>(None, "y")\<close> while \<^verbatim>\<open>result\<close> is empty, the
    loop returns there: \<^verbatim>\<open>result\<close> is that tuple, the call is recorded, and no module
    after it is called.
\<close>

theorem is_result_empty_tuple_rule:
  "(is_result_empty r r \<longleftrightarrow>
      r = PNone \<or> (\<exists>vs. r = PTuple vs \<and> (\<forall>v \<in> set vs. v = PNone))) \<and>
   (invoke m1 method args kwargs = Returns (PTuple [PNone, PNone]) \<and>
    exposes m2 method \<and>
    (is_result_empty (result s) (result s) \<or> isinstance_list (result s)) \<longrightarrow>
      (\<exists>rest. invoked (state_at_end (run_loop method args kwargs (m1 # m2 # ms) s)) =
         invoked s @ [cls_name m1, cls_name m2] @ rest)) \<and>
   (invoke q method args kwargs = Returns (PTuple [PNone, PStr y]) \<and>
    is_result_empty (result t) (result t) \<longrightarrow>
      run_loop method args kwargs (q # qs) t =
        Inr (t\<lparr>result := PTuple [PNone, PStr y], invoked := invoked t @ [cls_name q]\<rparr>))"
proof (intro conjI impI)
  show "is_result_empty r r \<longleftrightarrow>
      r = PNone \<or> (\<exists>vs. r = PTuple vs \<and> (\<forall>v \<in> set vs. v = PNone))"
    by (rule is_result_empty_iff)
next
  assume h: "invoke m1 method args kwargs = Returns (PTuple [PNone, PNone]) \<and>
    exposes m2 method \<and>
    (is_result_empty (result s) (result s) \<or> isinstance_list (result s))"
  then have e1: "exposes m1 method"
    by (auto dest: invoke_Returns_exposes)
  show "\<exists>rest. invoked (state_at_end (run_loop method args kwargs (m1 # m2 # ms) s)) =
         invoked s @ [cls_name m1, cls_name m2] @ rest"
  proof (cases "is_result_empty (result s) (result s)")
    case True
    let ?s1 = "(called m1 method s)\<lparr>result := PTuple [PNone, PNone]\<rparr>"
    have "is_result_empty (result ?s1) (result ?s1) \<or> isinstance_list (result ?s1)"
      by simp
    from run_loop_invokes_next [OF this, of m2 "method" args kwargs ms] h
    obtain rest where "invoked (state_at_end (run_loop method args kwargs (m2 # ms) ?s1)) =
        invoked ?s1 @ [cls_name m2] @ rest"
      by blast
    moreover have "run_loop method args kwargs (m1 # m2 # ms) s =
        run_loop method args kwargs (m2 # ms) ?s1"
      using True h by (simp del: run_loop.simps add: run_loop_Returns_empty)
    ultimately show ?thesis
      using e1 by (simp del: run_loop.simps add: invoked_called)
  next
    case False
    with h have l: "isinstance_list (result s)" by simp
    let ?s1 = "called m1 method s"
    from l have "is_result_empty (result ?s1) (result ?s1) \<or> isinstance_list (result ?s1)"
      by simp
    from run_loop_invokes_next [OF this, of m2 "method" args kwargs ms] h
    obtain rest where "invoked (state_at_end (run_loop method args kwargs (m2 # ms) ?s1)) =
        invoked ?s1 @ [cls_name m2] @ rest"
      by blast
    moreover have "run_loop method args kwargs (m1 # m2 # ms) s =
        run_loop method args kwargs (m2 # ms) ?s1"
      using False l h by (subst run_loop.simps) simp
    ultimately show ?thesis
      using e1 by (simp del: run_loop.simps add: invoked_called)
  qed
next
  assume h: "invoke q method args kwargs = Returns (PTuple [PNone, PStr y]) \<and>
    is_result_empty (result t) (result t)"
  then have e1: "exposes q method"
    by (auto dest: invoke_Returns_exposes)
  let ?t1 = "(called q method t)\<lparr>result := PTuple [PNone, PStr y]\<rparr>"
  have "run_loop method args kwargs qs ?t1 = Inr ?t1"
    by (rule run_loop_break) simp_all
  with h e1 show "run_loop method args kwargs (q # qs) t =
      Inr (t\<lparr>result := PTuple [PNone, PStr y], invoked := invoked t @ [cls_name q]\<rparr>)"
    by (simp add: called_def)
qed

theorem is_result_empty_tuple_rule_witness:
  "is_result_empty (PTuple [PNone, PNone]) (PTuple [PNone, PNone]) \<and>
   \<not> is_result_empty (PTuple [PNone, PStr ''y'']) (PTuple [PNone, PStr ''y'']) \<and>
   run_loop ''prepare_recognize'' [] no_kwargs
     [stub ''P1'' ''prepare_recognize'' (Returns (PTuple [PNone, PNone])),
      stub ''P2'' ''prepare_recognize'' (Returns (PTuple [PNone, PStr ''y''])),
      stub ''P3'' ''prepare_recognize'' (Returns (PTuple [PStr ''t'', PNone]))]
     \<lparr>result = PNone, logged = [], invoked = []\<rparr> =
     Inr \<lparr>result = PTuple [PNone, PStr ''y''], logged = [], invoked = [''P1'', ''P2'']\<rparr> \<and>
   run_loop ''prepare_recognize'' [] no_kwargs
     [stub ''P2'' ''prepare_recognize'' (Returns (PTuple [PNone, PStr ''y''])),
      stub ''P3'' ''prepare_recognize'' (Returns (PTuple [PStr ''t'', PNone]))]
     \<lparr>result = PTuple [PNone, PNone], logged = [], invoked = [''P1'']\<rparr> =
     Inr \<lparr>result = PTuple [PNone, PStr ''y''], logged = [], invoked = [''P1'', ''P2'']\<rparr>"
  using is_result_empty_tuple_rule
    [of "PTuple [PNone, PNone]"
      "stub ''P1'' ''prepare_recognize'' (Returns (PTuple [PNone, PNone]))"
      "''prepare_recognize''" "[]" no_kwargs
      "stub ''P2'' ''prepare_recognize'' (Returns (PTuple [PNone, PStr ''y'']))"
      "\<lparr>result = PNone, logged = [], invoked = []\<rparr>"
      "[stub ''P3'' ''prepare_recognize'' (Returns (PTuple [PStr ''t'', PNone]))]"
      "stub ''P2'' ''prepare_recognize'' (Returns (PTuple [PNone, PStr ''y'']))"
      "''y''"
      "\<lparr>result = PTuple [PNone, PNone], logged = [], invoked = [''P1'']\<rparr>"
      "[stub ''P3'' ''prepare_recognize'' (Returns (PTuple [PStr ''t'', PNone]))]"]
  by (simp add: stub_def invoke_def exposes_def called_def)

text \<open>
  C6, the empty result. The specification says that a caller cannot tell apart, from
  the value returned, a method with no module, a dispatch in which every call raises,
  and a dispatch in which every call returns an empty value. That fails: with no
  module the value is \<^verbatim>\<open>None\<close>, and with one module that returns \<^verbatim>\<open>(None, None)\<close>,
  an empty value for \<^verbatim>\<open>is_result_empty\<close>, the value is \<^verbatim>\<open>(None, None)\<close>.
\<close>

theorem run_module_empty_results_differ:
  "run_module (registry_of []) ''prepare_recognize'' [] no_kwargs =
     Inr \<lparr>result = PNone, logged = [LogDebug ''prepare_recognize''], invoked = []\<rparr> \<and>
   run_module
     (registry_of [stub ''P1'' ''prepare_recognize'' (Returns (PTuple [PNone, PNone]))])
     ''prepare_recognize'' [] no_kwargs =
     Inr \<lparr>result = PTuple [PNone, PNone], logged = [LogDebug ''prepare_recognize''],
          invoked = [''P1'']\<rparr> \<and>
   no_contribution (Returns (PTuple [PNone, PNone])) \<and>
   PTuple [PNone, PNone] \<noteq> PNone"
  by (simp add: run_module_def registry_of_def stub_def invoke_def exposes_def called_def)

text \<open>
  C6 as the code has it. In these three cases \<^verbatim>\<open>__run_module\<close> returns, and the
  value is one that \<^verbatim>\<open>is_result_empty\<close> takes for empty:
  \<^item> when the module manager returns no module, the value is \<^verbatim>\<open>None\<close>, no module is
    called and only the debug entry is logged;
  \<^item> when every call raises an exception that the handler can format, the value is
    \<^verbatim>\<open>None\<close>;
  \<^item> when every call returns an empty value, the value is empty, that is \<^verbatim>\<open>None\<close> or
    a tuple of \<^verbatim>\<open>None\<close>s, and so it can differ from the value of the first two
    cases.
\<close>

theorem run_module_empty_result_cases:
  "(modulemanager self method = [] \<longrightarrow>
      run_module self method args kwargs =
        Inr \<lparr>result = PNone, logged = [LogDebug method], invoked = []\<rparr>) \<and>
   ((\<forall>p \<in> set (modulemanager self' method).
       \<exists>err msg. invoke p method args kwargs = Raises err \<and> str_of err = Str_Returns msg) \<longrightarrow>
      (\<exists>t. run_module self' method args kwargs = Inr t \<and> result t = PNone)) \<and>
   ((\<forall>p \<in> set (modulemanager self'' method).
       \<exists>w. invoke p method args kwargs = Returns w \<and> is_result_empty w w) \<longrightarrow>
      (\<exists>t. run_module self'' method args kwargs = Inr t \<and>
         is_result_empty (result t) (result t) \<and>
         (result t = PNone \<or>
          (\<exists>vs. result t = PTuple vs \<and> (\<forall>v \<in> set vs. v = PNone)))))"
proof (intro conjI impI)
  assume "modulemanager self method = []"
  then show "run_module self method args kwargs =
      Inr \<lparr>result = PNone, logged = [LogDebug method], invoked = []\<rparr>"
    by (simp add: run_module_def)
next
  assume "\<forall>p \<in> set (modulemanager self' method).
      \<exists>err msg. invoke p method args kwargs = Raises err \<and> str_of err = Str_Returns msg"
  then show "\<exists>t. run_module self' method args kwargs = Inr t \<and> result t = PNone"
    unfolding run_module_def
    using run_loop_all_Raises [of "modulemanager self' method" "method" args kwargs
        "\<lparr>result = PNone, logged = [LogDebug method], invoked = []\<rparr>"]
    by simp
next
  assume h: "\<forall>p \<in> set (modulemanager self'' method).
      \<exists>w. invoke p method args kwargs = Returns w \<and> is_result_empty w w"
  let ?s0 = "\<lparr>result = PNone, logged = [LogDebug method], invoked = []\<rparr>"
  from h have l: "\<forall>p \<in> set (modulemanager self'' method). loggable (invoke p method args kwargs)"
    by auto
  from h have n: "\<forall>p \<in> set (modulemanager self'' method).
      no_contribution (invoke p method args kwargs)"
    by auto
  from run_loop_returns [OF l, of ?s0] obtain t where
    t: "run_loop method args kwargs (modulemanager self'' method) ?s0 = Inr t"
    by blast
  have e: "is_result_empty (result t) (result t)"
    using run_loop_no_contribution [OF _ n t] by simp
  then have "result t = PNone \<or> (\<exists>vs. result t = PTuple vs \<and> (\<forall>v \<in> set vs. v = PNone))"
    by (simp only: is_result_empty_iff)
  with t e show "\<exists>t. run_module self'' method args kwargs = Inr t \<and>
      is_result_empty (result t) (result t) \<and>
      (result t = PNone \<or> (\<exists>vs. result t = PTuple vs \<and> (\<forall>v \<in> set vs. v = PNone)))"
    unfolding run_module_def by blast
qed

theorem run_module_empty_result_cases_witness:
  "run_module (registry_of []) ''prepare_recognize'' [] no_kwargs =
     Inr \<lparr>result = PNone, logged = [LogDebug ''prepare_recognize''], invoked = []\<rparr> \<and>
   run_module
     (registry_of
       [stub ''P1'' ''prepare_recognize'' (Raises (PyExc ''ValueError'' (Str_Returns ''boom''))),
        stub ''P2'' ''prepare_recognize'' (Raises (PyExc ''KeyError'' (Str_Returns ''title'')))])
     ''prepare_recognize'' [] no_kwargs =
     Inr \<lparr>result = PNone,
          logged = [LogDebug ''prepare_recognize'',
                    LogError ''prepare_recognize'' ''P1'' ''boom'',
                    LogError ''prepare_recognize'' ''P2'' ''title''],
          invoked = [''P1'', ''P2'']\<rparr> \<and>
   run_module
     (registry_of
       [stub ''P1'' ''prepare_recognize'' (Returns PNone),
        stub ''P2'' ''prepare_recognize'' (Returns (PTuple [PNone, PNone]))])
     ''prepare_recognize'' [] no_kwargs =
     Inr \<lparr>result = PTuple [PNone, PNone], logged = [LogDebug ''prepare_recognize''],
          invoked = [''P1'', ''P2'']\<rparr>"
  using run_module_empty_result_cases
    [of "registry_of []" "''prepare_recognize''" "[]" no_kwargs
      "registry_of
       [stub ''P1'' ''prepare_recognize'' (Raises (PyExc ''ValueError'' (Str_Returns ''boom''))),
        stub ''P2'' ''prepare_recognize'' (Raises (PyExc ''KeyError'' (Str_Returns ''title'')))]"
      "registry_of
         [stub ''P1'' ''prepare_recognize'' (Returns PNone),
          stub ''P2'' ''prepare_recognize'' (Returns (PTuple [PNone, PNone]))]"]
  by (simp add: run_module_def registry_of_def stub_def invoke_def exposes_def called_def
      handler_def)

text \<open>
  C7, the shape of the result. The shape of a value is absent, sequence or scalar
  by the two tests of the loop. Whenever \<^verbatim>\<open>__run_module\<close>, or the loop, returns:
  \<^item> when the modules before some module contribute nothing (each call raises or
    returns an empty value) and the call of that module returns a value that is not
    empty, the value returned has the shape of that value, whatever the modules
    after it do;
  \<^item> when no module contributes, the shape of the value returned is absent;
  \<^item> from a state whose \<^verbatim>\<open>result\<close> is not empty, the loop keeps the shape;
  \<^item> from a state whose \<^verbatim>\<open>result\<close> is a list, the loop returns that list with
    elements added at its end.
  From a state whose \<^verbatim>\<open>result\<close> is a scalar, the loop returns at once and changes
  nothing. And \<^verbatim>\<open>__run_module\<close> and the loop do return when every outcome of a call
  is loggable.
\<close>

theorem run_module_shape_fixed:
  "(modulemanager self method = ps @ q # qs \<and>
    (\<forall>p \<in> set ps. no_contribution (invoke p method args kwargs)) \<and>
    invoke q method args kwargs = Returns v \<and> \<not> is_result_empty v v \<and>
    run_module self method args kwargs = Inr u \<longrightarrow>
      shape_of (result u) = shape_of v) \<and>
   ((\<forall>p \<in> set (modulemanager self' method).
       no_contribution (invoke p method args kwargs)) \<and>
    run_module self' method args kwargs = Inr u' \<longrightarrow>
      shape_of (result u') = Absent) \<and>
   (shape_of (result s) \<noteq> Absent \<and> run_loop method args kwargs ms s = Inr s' \<longrightarrow>
      shape_of (result s') = shape_of (result s)) \<and>
   (result s = PList xs \<and> run_loop method args kwargs ms s = Inr s' \<longrightarrow>
      result s' =
        PList (xs @ concat (map (\<lambda>m. items_of (invoke m method args kwargs)) ms))) \<and>
   (shape_of (result t) = Scalar \<longrightarrow> run_loop method args kwargs ms t = Inr t) \<and>
   ((\<forall>p \<in> set (modulemanager c method). loggable (invoke p method args kwargs)) \<longrightarrow>
      (\<exists>w. run_module c method args kwargs = Inr w)) \<and>
   ((\<forall>p \<in> set ms. loggable (invoke p method args kwargs)) \<longrightarrow>
      (\<exists>w. run_loop method args kwargs ms s = Inr w))"
proof (intro conjI impI)
  assume h: "modulemanager self method = ps @ q # qs \<and>
    (\<forall>p \<in> set ps. no_contribution (invoke p method args kwargs)) \<and>
    invoke q method args kwargs = Returns v \<and> \<not> is_result_empty v v \<and>
    run_module self method args kwargs = Inr u"
  let ?s0 = "\<lparr>result = PNone, logged = [LogDebug method], invoked = []\<rparr>"
  from h have r: "run_loop method args kwargs (ps @ q # qs) ?s0 = Inr u"
    by (auto simp: run_module_def simp del: run_loop.simps)
  then obtain s1 where s1: "run_loop method args kwargs ps ?s0 = Inr s1"
    and r1: "run_loop method args kwargs (q # qs) s1 = Inr u"
    by (auto simp: run_loop_append simp del: run_loop.simps split: sum.splits)
  have e: "is_result_empty (result s1) (result s1)"
    using h run_loop_no_contribution [of ?s0 ps "method" args kwargs s1] s1 by simp
  let ?s2 = "(called q method s1)\<lparr>result := v\<rparr>"
  have "run_loop method args kwargs (q # qs) s1 = run_loop method args kwargs qs ?s2"
    using e h by (intro run_loop_Returns_empty) simp_all
  with r1 have "run_loop method args kwargs qs ?s2 = Inr u"
    by simp
  then have "shape_of (result u) = shape_of (result ?s2)"
    using h by (intro run_loop_shape [of ?s2 "method" args kwargs qs u]) simp_all
  then show "shape_of (result u) = shape_of v"
    by simp
next
  assume h: "(\<forall>p \<in> set (modulemanager self' method).
      no_contribution (invoke p method args kwargs)) \<and>
    run_module self' method args kwargs = Inr u'"
  then show "shape_of (result u') = Absent"
    unfolding run_module_def
    using run_loop_no_contribution
      [of "\<lparr>result = PNone, logged = [LogDebug method], invoked = []\<rparr>"
        "modulemanager self' method" "method" args kwargs u']
    by simp
next
  assume "shape_of (result s) \<noteq> Absent \<and> run_loop method args kwargs ms s = Inr s'"
  then show "shape_of (result s') = shape_of (result s)"
    by (intro run_loop_shape [of s "method" args kwargs ms s']) simp_all
next
  assume "result s = PList xs \<and> run_loop method args kwargs ms s = Inr s'"
  then show "result s' =
      PList (xs @ concat (map (\<lambda>m. items_of (invoke m method args kwargs)) ms))"
    using run_loop_list [of s xs "method" args kwargs ms s'] by simp
next
  assume "shape_of (result t) = Scalar"
  then show "run_loop method args kwargs ms t = Inr t"
    by (intro run_loop_break) simp_all
next
  assume "\<forall>p \<in> set (modulemanager c method). loggable (invoke p method args kwargs)"
  then show "\<exists>w. run_module c method args kwargs = Inr w"
    unfolding run_module_def by (rule run_loop_returns)
next
  assume "\<forall>p \<in> set ms. loggable (invoke p method args kwargs)"
  then show "\<exists>w. run_loop method args kwargs ms s = Inr w"
    by (rule run_loop_returns)
qed

theorem run_module_shape_fixed_witness:
  "run_module
     (registry_of
       [stub ''P1'' ''search_medias'' (Raises (PyExc ''ValueError'' (Str_Returns ''boom''))),
        stub ''P2'' ''search_medias'' (Returns (PTuple [PNone, PNone])),
        stub ''P3'' ''search_medias'' (Returns (PList [PInt 1])),
        stub ''P4'' ''search_medias'' (Returns (PStr ''X'')),
        stub ''P5'' ''search_medias'' (Returns (PList [PInt 2]))])
     ''search_medias'' [] no_kwargs =
     Inr \<lparr>result = PList [PInt 1, PInt 2],
          logged = [LogDebug ''search_medias'', LogError ''search_medias'' ''P1'' ''boom''],
          invoked = [''P1'', ''P2'', ''P3'', ''P4'', ''P5'']\<rparr> \<and>
   shape_of (PList [PInt 1, PInt 2]) = shape_of (PList [PInt 1]) \<and>
   run_module
     (registry_of
       [stub ''P1'' ''search_medias'' (Raises (PyExc ''ValueError'' (Str_Returns ''boom''))),
        stub ''P2'' ''search_medias'' (Returns (PTuple [PNone, PNone]))])
     ''search_medias'' [] no_kwargs =
     Inr \<lparr>result = PTuple [PNone, PNone],
          logged = [LogDebug ''search_medias'', LogError ''search_medias'' ''P1'' ''boom''],
          invoked = [''P1'', ''P2'']\<rparr> \<and>
   shape_of (PTuple [PNone, PNone]) = Absent \<and>
   run_loop ''search_medias'' [] no_kwargs
     [stub ''P4'' ''search_medias'' (Returns (PStr ''X'')),
      stub ''P5'' ''search_medias'' (Returns (PList [PInt 2]))]
     \<lparr>result = PList [PInt 1], logged = [], invoked = [''P3'']\<rparr> =
     Inr \<lparr>result = PList [PInt 1, PInt 2], logged = [],
          invoked = [''P3'', ''P4'', ''P5'']\<rparr> \<and>
   run_loop ''search_medias'' [] no_kwargs
     [stub ''P4'' ''search_medias'' (Returns (PStr ''X'')),
      stub ''P5'' ''search_medias'' (Returns (PList [PInt 2]))]
     \<lparr>result = PStr ''Y'', logged = [], invoked = [''P3'']\<rparr> =
     Inr \<lparr>result = PStr ''Y'', logged = [], invoked = [''P3'']\<rparr>"
  using run_module_shape_fixed
    [of "registry_of
       [stub ''P1'' ''search_medias'' (Raises (PyExc ''ValueError'' (Str_Returns ''boom''))),
        stub ''P2'' ''search_medias'' (Returns (PTuple [PNone, PNone])),
        stub ''P3'' ''search_medias'' (Returns (PList [PInt 1])),
        stub ''P4'' ''search_medias'' (Returns (PStr ''X'')),
        stub ''P5'' ''search_medias'' (Returns (PList [PInt 2]))]"
      "''search_medias''"
      "[stub ''P1'' ''search_medias'' (Raises (PyExc ''ValueError'' (Str_Returns ''boom''))),
        stub ''P2'' ''search_medias'' (Returns (PTuple [PNone, PNone]))]"
      "stub ''P3'' ''search_medias'' (Returns (PList [PInt 1]))"
      "[stub ''P4'' ''search_medias'' (Returns (PStr ''X'')),
        stub ''P5'' ''search_medias'' (Returns (PList [PInt 2]))]"
      "[]" no_kwargs "PList [PInt 1]"
      "\<lparr>result = PList [PInt 1, PInt 2],
          logged = [LogDebug ''search_medias'', LogError ''search_medias'' ''P1'' ''boom''],
          invoked = [''P1'', ''P2'', ''P3'', ''P4'', ''P5'']\<rparr>"
      "registry_of
       [stub ''P1'' ''search_medias'' (Raises (PyExc ''ValueError'' (Str_Returns ''boom''))),
        stub ''P2'' ''search_medias'' (Returns (PTuple [PNone, PNone]))]"
      "\<lparr>result = PTuple [PNone, PNone],
          logged = [LogDebug ''search_medias'', LogError ''search_medias'' ''P1'' ''boom''],
          invoked = [''P1'', ''P2'']\<rparr>"
      "\<lparr>result = PList [PInt 1], logged = [], invoked = [''P3'']\<rparr>"
      "[stub ''P4'' ''search_medias'' (Returns (PStr ''X'')),
        stub ''P5'' ''search_medias'' (Returns (PList [PInt 2]))]"
      "\<lparr>result = PList [PInt 1, PInt 2], logged = [],
          invoked = [''P3'', ''P4'', ''P5'']\<rparr>"
      "[PInt 1]"
      "\<lparr>result = PStr ''Y'', logged = [], invoked = [''P3'']\<rparr>"
      "registry_of
       [stub ''P1'' ''search_medias'' (Raises (PyExc ''ValueError'' (Str_Returns ''boom''))),
        stub ''P2'' ''search_medias'' (Returns (PTuple [PNone, PNone]))]"]
  by (simp add: run_module_def registry_of_def stub_def invoke_def exposes_def called_def
      handler_def)

text \<open>
  C8, forwarding. Each of the twenty-eight public methods of \<^verbatim>\<open>ChainBase\<close> ends as
  \<^verbatim>\<open>__run_module\<close> ends when it is called with the method's own name, no positional
  argument, and one keyword argument for each parameter of the method, named as the
  parameter and holding its value (its default when the caller left it out). Nothing
  is merged, filtered or handled besides: the final state of the dispatch, with its
  calls and its log, or the exception that leaves it, is that of the method.
\<close>

theorem facade_forwards_to_run_module:
  "(\<forall>title subtitle.
      prepare_recognize self title subtitle =
      forward self ''prepare_recognize''
        [(''title'', title), (''subtitle'', arg_or PNone subtitle)]) \<and>
   (\<forall>meta mtype tmdbid.
      recognize_media self meta mtype tmdbid =
      forward self ''recognize_media''
        [(''meta'', arg_or PNone meta), (''mtype'', arg_or PNone mtype),
         (''tmdbid'', arg_or PNone tmdbid)]) \<and>
   (\<forall>mediainfo.
      obtain_image self mediainfo =
      forward self ''obtain_image''
        [(''mediainfo'', mediainfo)]) \<and>
   (\<forall>doubanid.
      douban_info self doubanid =
      forward self ''douban_info''
        [(''doubanid'', doubanid)]) \<and>
   (\<forall>tvdbid.
      tvdb_info self tvdbid =
      forward self ''tvdb_info''
        [(''tvdbid'', tvdbid)]) \<and>
   (\<forall>tmdbid mtype.
      tmdb_info self tmdbid mtype =
      forward self ''tmdb_info''
        [(''tmdbid'', tmdbid), (''mtype'', mtype)]) \<and>
   (\<forall>body form args.
      message_parser self body form args =
      forward self ''message_parser''
        [(''body'', body), (''form'', form), (''args'', args)]) \<and>
   (\<forall>body form args.
      webhook_parser self body form args =
      forward self ''webhook_parser''
        [(''body'', body), (''form'', form), (''args'', args)]) \<and>
   (\<forall>meta.
      search_medias self meta =
      forward self ''search_medias''
        [(''meta'', meta)]) \<and>
   (\<forall>mediainfo sites keyword.
      search_torrents self mediainfo sites keyword =
      forward self ''search_torrents''
        [(''mediainfo'', mediainfo), (''sites'', sites),
         (''keyword'', arg_or PNone keyword)]) \<and>
   (\<forall>sites.
      refresh_torrents self sites =
      forward self ''refresh_torrents''
        [(''sites'', sites)]) \<and>
   (\<forall>torrent_list season_episodes.
      filter_torrents self torrent_list season_episodes =
      forward self ''filter_torrents''
        [(''torrent_list'', torrent_list),
         (''season_episodes'', arg_or PNone season_episodes)]) \<and>
   (\<forall>torrent_path cookie episodes.
      download self torrent_path cookie episodes =
      forward self ''download''
        [(''torrent_path'', torrent_path), (''cookie'', cookie),
         (''episodes'', arg_or PNone episodes)]) \<and>
   (\<forall>context torrent_path.
      download_added self context torrent_path =
      forward self ''download_added''
        [(''context'', context), (''torrent_path'', torrent_path)]) \<and>
   (\<forall>status hashs.
      list_torrents self status hashs =
      forward self ''list_torrents''
        [(''status'', arg_or PNone status), (''hashs'', arg_or PNone hashs)]) \<and>
   (\<forall>path mediainfo.
      transfer self path mediainfo =
      forward self ''transfer''
        [(''path'', path), (''mediainfo'', mediainfo)]) \<and>
   (\<forall>hashs transinfo.
      transfer_completed self hashs transinfo =
      forward self ''transfer_completed''
        [(''hashs'', hashs), (''transinfo'', transinfo)]) \<and>
   (\<forall>hashs.
      remove_torrents self hashs =
      forward self ''remove_torrents''
        [(''hashs'', hashs)]) \<and>
   (\<forall>mediainfo.
      media_exists self mediainfo =
      forward self ''media_exists''
        [(''mediainfo'', mediainfo)]) \<and>
   (\<forall>mediainfo file_path.
      refresh_mediaserver self mediainfo file_path =
      forward self ''refresh_mediaserver''
        [(''mediainfo'', mediainfo), (''file_path'', file_path)]) \<and>
   (\<forall>title text image' userid.
      post_message self title text image' userid =
      forward self ''post_message''
        [(''title'', title), (''text'', arg_or PNone text),
         (''image'', arg_or PNone image'), (''userid'', arg_or PNone userid)]) \<and>
   (\<forall>title items userid.
      post_medias_message self title items userid =
      forward self ''post_medias_message''
        [(''title'', title), (''items'', items), (''userid'', arg_or PNone userid)]) \<and>
   (\<forall>title items mediainfo userid.
      post_torrents_message self title items mediainfo userid =
      forward self ''post_torrents_message''
        [(''title'', title), (''items'', items), (''mediainfo'', mediainfo),
         (''userid'', arg_or PNone userid)]) \<and>
   (\<forall>path mediainfo.
      scrape_metadata self path mediainfo =
      forward self ''scrape_metadata''
        [(''path'', path), (''mediainfo'', mediainfo)]) \<and>
   (\<forall>commands.
      register_commands self commands =
      forward self ''register_commands''
        [(''commands'', commands)]) \<and>
   (\<forall>mtype sort' tags start count.
      douban_discover self mtype sort' tags start count =
      forward self ''douban_discover''
        [(''mtype'', mtype), (''sort'', sort'), (''tags'', tags),
         (''start'', arg_or (PInt 0) start), (''count'', arg_or (PInt 30) count)]) \<and>
   (\<forall>mtype sort_by with_genres with_original_language page.
      tmdb_discover self mtype sort_by with_genres with_original_language page =
      forward self ''tmdb_discover''
        [(''mtype'', mtype), (''sort_by'', sort_by), (''with_genres'', with_genres),
         (''with_original_language'', with_original_language),
         (''page'', arg_or (PInt 1) page)]) \<and>
   (\<forall>page count.
      movie_top250 self page count =
      forward self ''movie_top250''
        [(''page'', arg_or (PInt 1) page), (''count'', arg_or (PInt 30) count)])"
  unfolding forward_def
    prepare_recognize_def recognize_media_def obtain_image_def douban_info_def
    tvdb_info_def tmdb_info_def message_parser_def webhook_parser_def search_medias_def
    search_torrents_def refresh_torrents_def filter_torrents_def download_def
    download_added_def list_torrents_def transfer_def transfer_completed_def
    remove_torrents_def media_exists_def refresh_mediaserver_def post_message_def
    post_medias_message_def scrape_metadata_def register_commands_def
    douban_discover_def tmdb_discover_def movie_top250_def
  by (simp only: post_torrents_message_forward [unfolded forward_def] simp_thms)

text \<open>
  C9, the empty list contributes. \<^verbatim>\<open>is_result_empty([])\<close> is false and the shape of
  \<^verbatim>\<open>[]\<close> is sequence. When the call of a module returns \<^verbatim>\<open>[]\<close> while \<^verbatim>\<open>result\<close> is
  empty, then whenever the loop returns every later module that has the method has
  been called, and the value returned is the list of the elements of the lists that
  the later modules return, in order; what a later module returns that is not a list
  is dropped. The loop does return when every outcome of a later module is loggable.
  So modules returning \<^verbatim>\<open>[]\<close> and \<^verbatim>\<open>[5]\<close> give \<^verbatim>\<open>[5]\<close>, and modules returning
  \<^verbatim>\<open>[]\<close>, \<^verbatim>\<open>"scalar"\<close> and \<^verbatim>\<open>[5]\<close> give \<^verbatim>\<open>[5]\<close> with all three called.
\<close>

theorem run_module_empty_list_contributes:
  "\<not> is_result_empty (PList []) (PList []) \<and>
   shape_of (PList []) = Sequence \<and>
   (is_result_empty (result s) (result s) \<and>
    invoke m method args kwargs = Returns (PList []) \<and>
    run_loop method args kwargs (m # ms) s = Inr s' \<longrightarrow>
      result s' =
        PList (concat (map (\<lambda>p. items_of (invoke p method args kwargs)) ms)) \<and>
      invoked s' =
        invoked s @ cls_name m # map cls_name (filter (\<lambda>p. exposes p method) ms)) \<and>
   (is_result_empty (result s) (result s) \<and>
    invoke m method args kwargs = Returns (PList []) \<and>
    (\<forall>p \<in> set ms. loggable (invoke p method args kwargs)) \<longrightarrow>
      (\<exists>w. run_loop method args kwargs (m # ms) s = Inr w)) \<and>
   (modulemanager self method = [p1, p2] \<and>
    invoke p1 method args kwargs = Returns (PList []) \<and>
    invoke p2 method args kwargs = Returns (PList [PInt 5]) \<longrightarrow>
      run_module self method args kwargs =
        Inr \<lparr>result = PList [PInt 5], logged = [LogDebug method],
             invoked = [cls_name p1, cls_name p2]\<rparr>) \<and>
   (modulemanager self' method = [p1, q, p2] \<and>
    invoke p1 method args kwargs = Returns (PList []) \<and>
    invoke q method args kwargs = Returns (PStr ''scalar'') \<and>
    invoke p2 method args kwargs = Returns (PList [PInt 5]) \<longrightarrow>
      run_module self' method args kwargs =
        Inr \<lparr>result = PList [PInt 5], logged = [LogDebug method],
             invoked = [cls_name p1, cls_name q, cls_name p2]\<rparr>)"
proof (intro conjI impI)
  show "\<not> is_result_empty (PList []) (PList [])" by simp
  show "shape_of (PList []) = Sequence" by simp
next
  assume h: "is_result_empty (result s) (result s) \<and>
    invoke m method args kwargs = Returns (PList []) \<and>
    run_loop method args kwargs (m # ms) s = Inr s'"
  then have e: "exposes m method"
    by (auto dest: invoke_Returns_exposes)
  let ?s1 = "(called m method s)\<lparr>result := PList []\<rparr>"
  have "run_loop method args kwargs (m # ms) s = run_loop method args kwargs ms ?s1"
    using h by (intro run_loop_Returns_empty) simp_all
  with h have r: "run_loop method args kwargs ms ?s1 = Inr s'"
    by (auto simp del: run_loop.simps)
  from run_loop_list [of ?s1 "[]" "method" args kwargs ms s'] r e
  show "result s' = PList (concat (map (\<lambda>p. items_of (invoke p method args kwargs)) ms))"
    and "invoked s' =
      invoked s @ cls_name m # map cls_name (filter (\<lambda>p. exposes p method) ms)"
    by (simp_all add: invoked_called)
next
  assume h: "is_result_empty (result s) (result s) \<and>
    invoke m method args kwargs = Returns (PList []) \<and>
    (\<forall>p \<in> set ms. loggable (invoke p method args kwargs))"
  then have "\<forall>p \<in> set (m # ms). loggable (invoke p method args kwargs)"
    by simp
  then show "\<exists>w. run_loop method args kwargs (m # ms) s = Inr w"
    by (rule run_loop_returns)
next
  assume h: "modulemanager self method = [p1, p2] \<and>
    invoke p1 method args kwargs = Returns (PList []) \<and>
    invoke p2 method args kwargs = Returns (PList [PInt 5])"
  then have e: "exposes p1 method" "exposes p2 method"
    by (auto dest: invoke_Returns_exposes)
  from h e show "run_module self method args kwargs =
      Inr \<lparr>result = PList [PInt 5], logged = [LogDebug method],
           invoked = [cls_name p1, cls_name p2]\<rparr>"
    by (simp add: run_module_def called_def)
next
  assume h: "modulemanager self' method = [p1, q, p2] \<and>
    invoke p1 method args kwargs = Returns (PList []) \<and>
    invoke q method args kwargs = Returns (PStr ''scalar'') \<and>
    invoke p2 method args kwargs = Returns (PList [PInt 5])"
  then have e: "exposes p1 method" "exposes q method" "exposes p2 method"
    by (auto dest: invoke_Returns_exposes)
  from h e show "run_module self' method args kwargs =
      Inr \<lparr>result = PList [PInt 5], logged = [LogDebug method],
           invoked = [cls_name p1, cls_name q, cls_name p2]\<rparr>"
    by (simp add: run_module_def called_def)
qed

theorem run_module_empty_list_contributes_witness:
  "run_loop ''search_torrents'' [] no_kwargs
     (stub ''P1'' ''search_torrents'' (Returns (PList [])) #
      [stub ''Q'' ''search_torrents'' (Returns (PStr ''scalar'')),
       stub ''P2'' ''search_torrents'' (Returns (PList [PInt 5]))])
     \<lparr>result = PNone, logged = [], invoked = []\<rparr> =
     Inr \<lparr>result = PList [PInt 5], logged = [], invoked = [''P1'', ''Q'', ''P2'']\<rparr> \<and>
   run_module
     (registry_of
       [stub ''P1'' ''search_torrents'' (Returns (PList [])),
        stub ''P2'' ''search_torrents'' (Returns (PList [PInt 5]))])
     ''search_torrents'' [] no_kwargs =
     Inr \<lparr>result = PList [PInt 5], logged = [LogDebug ''search_torrents''],
          invoked = [''P1'', ''P2'']\<rparr> \<and>
   run_module
     (registry_of
       [stub ''P1'' ''search_torrents'' (Returns (PList [])),
        stub ''Q'' ''search_torrents'' (Returns (PStr ''scalar'')),
        stub ''P2'' ''search_torrents'' (Returns (PList [PInt 5]))])
     ''search_torrents'' [] no_kwargs =
     Inr \<lparr>result = PList [PInt 5], logged = [LogDebug ''search_torrents''],
          invoked = [''P1'', ''Q'', ''P2'']\<rparr>"
  using run_module_empty_list_contributes
    [of "\<lparr>result = PNone, logged = [], invoked = []\<rparr>"
      "stub ''P1'' ''search_torrents'' (Returns (PList []))"
      "''search_torrents''" "[]" no_kwargs
      "[stub ''Q'' ''search_torrents'' (Returns (PStr ''scalar'')),
        stub ''P2'' ''search_torrents'' (Returns (PList [PInt 5]))]"
      "\<lparr>result = PList [PInt 5], logged = [], invoked = [''P1'', ''Q'', ''P2'']\<rparr>"
      "registry_of
       [stub ''P1'' ''search_torrents'' (Returns (PList [])),
        stub ''P2'' ''search_torrents'' (Returns (PList [PInt 5]))]"
      "stub ''P1'' ''search_torrents'' (Returns (PList []))"
      "stub ''P2'' ''search_torrents'' (Returns (PList [PInt 5]))"
      "registry_of
       [stub ''P1'' ''search_torrents'' (Returns (PList [])),
        stub ''Q'' ''search_torrents'' (Returns (PStr ''scalar'')),
        stub ''P2'' ''search_torrents'' (Returns (PList [PInt 5]))]"
      "stub ''Q'' ''search_torrents'' (Returns (PStr ''scalar''))"]
  by (simp add: run_module_def registry_of_def stub_def invoke_def exposes_def called_def)

text \<open>
  C10, the last empty value wins. While \<^verbatim>\<open>result\<close> is empty, the value that the call
  of a module returns replaces it, whatever the value. Hence, when the module manager
  returns at least one module and every call returns a value that
  \<^verbatim>\<open>is_result_empty\<close> takes for empty, \<^verbatim>\<open>__run_module\<close> returns the value that the call
  of the last module returns; when every call returns \<^verbatim>\<open>(None, None)\<close>, it returns
  \<^verbatim>\<open>(None, None)\<close>, which is not \<^verbatim>\<open>None\<close>.
\<close>

theorem run_module_last_empty_wins:
  "(is_result_empty (result s) (result s) \<and> invoke m method args kwargs = Returns v \<longrightarrow>
      run_loop method args kwargs (m # ms) s =
        run_loop method args kwargs ms
          (s\<lparr>invoked := invoked s @ [cls_name m], result := v\<rparr>)) \<and>
   (modulemanager self method \<noteq> [] \<and>
    (\<forall>p \<in> set (modulemanager self method).
       \<exists>w. invoke p method args kwargs = Returns w \<and> is_result_empty w w) \<longrightarrow>
      (\<exists>t. run_module self method args kwargs = Inr t \<and>
         invoke (last (modulemanager self method)) method args kwargs = Returns (result t))) \<and>
   (modulemanager self method \<noteq> [] \<and>
    (\<forall>p \<in> set (modulemanager self method).
       invoke p method args kwargs = Returns (PTuple [PNone, PNone])) \<longrightarrow>
      (\<exists>t. run_module self method args kwargs = Inr t \<and> result t = PTuple [PNone, PNone]))"
proof (intro conjI impI)
  assume h: "is_result_empty (result s) (result s) \<and> invoke m method args kwargs = Returns v"
  then have "exposes m method"
    by (auto dest: invoke_Returns_exposes)
  with h show "run_loop method args kwargs (m # ms) s =
      run_loop method args kwargs ms (s\<lparr>invoked := invoked s @ [cls_name m], result := v\<rparr>)"
    by (simp add: called_def)
next
  assume h: "modulemanager self method \<noteq> [] \<and>
    (\<forall>p \<in> set (modulemanager self method).
       \<exists>w. invoke p method args kwargs = Returns w \<and> is_result_empty w w)"
  then show "\<exists>t. run_module self method args kwargs = Inr t \<and>
      invoke (last (modulemanager self method)) method args kwargs = Returns (result t)"
    unfolding run_module_def by (intro run_loop_last_empty) simp_all
next
  assume h: "modulemanager self method \<noteq> [] \<and>
    (\<forall>p \<in> set (modulemanager self method).
       invoke p method args kwargs = Returns (PTuple [PNone, PNone]))"
  then have "\<forall>p \<in> set (modulemanager self method).
      \<exists>w. invoke p method args kwargs = Returns w \<and> is_result_empty w w"
    by simp
  with h obtain t where t: "run_module self method args kwargs = Inr t"
      "invoke (last (modulemanager self method)) method args kwargs = Returns (result t)"
    unfolding run_module_def
    using run_loop_last_empty [of "modulemanager self method"
        "\<lparr>result = PNone, logged = [LogDebug method], invoked = []\<rparr>" "method" args kwargs]
    by auto
  moreover from h have "invoke (last (modulemanager self method)) method args kwargs =
      Returns (PTuple [PNone, PNone])"
    by simp
  ultimately show "\<exists>t. run_module self method args kwargs = Inr t \<and>
      result t = PTuple [PNone, PNone]"
    by simp
qed

theorem run_module_last_empty_wins_witness:
  "run_loop ''prepare_recognize'' [] no_kwargs
     [stub ''P1'' ''prepare_recognize'' (Returns (PTuple [PNone, PNone])),
      stub ''P2'' ''prepare_recognize'' (Returns PNone)]
     \<lparr>result = PNone, logged = [], invoked = []\<rparr> =
   run_loop ''prepare_recognize'' [] no_kwargs
     [stub ''P2'' ''prepare_recognize'' (Returns PNone)]
     \<lparr>result = PTuple [PNone, PNone], logged = [], invoked = [''P1'']\<rparr> \<and>
   run_module
     (registry_of
       [stub ''P1'' ''prepare_recognize'' (Returns (PTuple [PNone, PNone])),
        stub ''P2'' ''prepare_recognize'' (Returns (PTuple [PNone, PNone]))])
     ''prepare_recognize'' [] no_kwargs =
     Inr \<lparr>result = PTuple [PNone, PNone], logged = [LogDebug ''prepare_recognize''],
          invoked = [''P1'', ''P2'']\<rparr> \<and>
   PTuple [PNone, PNone] \<noteq> PNone"
  using run_module_last_empty_wins
    [of "\<lparr>result = PNone, logged = [], invoked = []\<rparr>"
      "stub ''P1'' ''prepare_recognize'' (Returns (PTuple [PNone, PNone]))"
      "''prepare_recognize''" "[]" no_kwargs "PTuple [PNone, PNone]"
      "[stub ''P2'' ''prepare_recognize'' (Returns PNone)]"
      "registry_of
       [stub ''P1'' ''prepare_recognize'' (Returns (PTuple [PNone, PNone])),
        stub ''P2'' ''prepare_recognize'' (Returns (PTuple [PNone, PNone]))]"]
  by (simp add: run_module_def registry_of_def stub_def invoke_def exposes_def called_def)

end
